theory Spec2Isabelle
  imports Main "HOL-Library.Word"
begin

section \<open>The write path of \<open>frame_utils.hpp\<close>\<close>

text \<open>
  This theory embeds \<open>cpp/arcticdb/pipeline/frame_utils.hpp\<close>: the string sizing helper
  \<open>get_max_string_size\<close>, \<open>flatten_tensor\<close> and the column dispatcher
  \<open>aggregator_set_data\<close>.

  The header is almost entirely glue between collaborators that are declared elsewhere
  (the type traits of \<open>types.hpp\<close>, the tensor classes, the Python conversion helpers,
  the string pool, the flattening helper) and two template parameters (\<open>Tensor\<close> and
  \<open>Aggregator\<close>). What those collaborators compute is not fixed here: every one of them
  is a field of the record \<open>externals\<close>, and a theorem about the code of the header
  holds for all values of these fields unless it states what it asks of one of them.
  Calls on the \<open>Aggregator\<close> template parameter are recorded, in order, in a log.

  Conventions: a \<open>size_t\<close> is 64 bits wide. Row counts and row indices are natural
  numbers; the two products of \<open>size_t\<close> values that the header computes (the byte sizes
  of lines 85 and 141) wrap modulo \<open>2 ^ 64\<close> as they do in the source. Addresses and
  strides are integers counted in bytes, a raised exception is a value \<open>Inl e\<close>.
  Exceptions raised inside the collaborators themselves (an allocation failure, say) are
  outside the model. The loop counter of \<open>get_max_string_size\<close> is declared \<open>0u\<close>, a
  32 bit unsigned, and is modelled as such.
\<close>

subsection \<open>Values\<close>

type_synonym offset_t = nat
type_synonym address = int

text \<open>The product of two \<open>size_t\<close> values.\<close>

definition size_t_mult :: "nat \<Rightarrow> nat \<Rightarrow> nat" where
  "size_t_mult a b = (a * b) mod 2 ^ 64"

datatype error =
    E_CHECK string
  | E_RUNTIME string
  | E_ASSERTION_FAILURE string
  | E_STATIC_ASSERT string

text \<open>
  \<open>E_CHECK\<close> is a failed \<open>util::check\<close>, \<open>E_RUNTIME\<close> is \<open>util::raise_rte\<close>,
  \<open>E_ASSERTION_FAILURE\<close> is \<open>internal::raise<ErrorCode::E_ASSERTION_FAILURE>\<close>.
  \<open>E_STATIC_ASSERT\<close> stands for the \<open>static_assert\<close> of line 194: a tag that reaches
  it has no instantiation of the visitor at all.
\<close>

text \<open>
  The members \<open>row_index_in_slice_\<close>, \<open>buffer_\<close> and \<open>length_\<close> of the source are the
  fields \<open>row_index_in_slice\<close>, \<open>wrapper_buffer\<close> and \<open>wrapper_length\<close>; \<open>detail\<close>
  is whatever else the decoder put into the error.
\<close>

record 'e StringEncodingError =
  detail :: 'e
  row_index_in_slice :: nat

record PyStringWrapper =
  wrapper_buffer :: string
  wrapper_length :: nat

text \<open>
  \<open>std::variant<StringEncodingError, PyStringWrapper>\<close>; the third alternative is the
  state in which neither \<open>holds_alternative\<close> of lines 156 and 160 answers true.
\<close>

datatype 'e wrapper_or_error =
    Wrapper PyStringWrapper
  | EncodingError "'e StringEncodingError"
  | Valueless

record 'dt TypeDescriptor =
  td_data_type :: 'dt

record 'dt DataTypeTag =
  tag_data_type :: 'dt
  sizeof_raw_type :: nat

record 'dt NativeTensor =
  nt_data_type :: 'dt
  nt_data :: address
  nt_strides0 :: int
  nt_elsize :: nat

text \<open>
  \<open>TypedTensor<RawType> t(tensor, slice_num, regular_slice_size, rows_to_write)\<close>: the
  class is declared outside this header, so a typed tensor is the four arguments of
  its constructor.
\<close>

record 'dt TypedTensor =
  tt_tensor :: "'dt NativeTensor"
  tt_slice_num :: nat
  tt_regular_slice_size :: nat
  tt_rows :: nat

definition TypedTensor :: "'dt NativeTensor \<Rightarrow> nat \<Rightarrow> nat \<Rightarrow> nat \<Rightarrow> 'dt TypedTensor" where
  "TypedTensor tensor slice_num regular_slice_size rows_to_write =
     \<lparr>tt_tensor = tensor, tt_slice_num = slice_num,
      tt_regular_slice_size = regular_slice_size, tt_rows = rows_to_write\<rparr>"

text \<open>
  A \<open>ChunkedBuffer\<close> as \<open>flatten_tensor\<close> sees it: the byte size it was presized to
  and the elements found behind \<open>data()\<close>, by element index.
\<close>

record 'v ChunkedBuffer =
  bytes :: nat
  cells :: "nat \<Rightarrow> 'v"

text \<open>
  A pointer to a row of handles points either into the caller's frame memory (a byte
  address) or into the data of a flattened buffer (the buffer's elements and an element
  index).
\<close>

datatype 'v ptr =
    ExternalMemory address
  | FlattenedBuffer "nat \<Rightarrow> 'v" nat

subsection \<open>The aggregator\<close>

datatype 'dt agg_call =
    set_string_at nat nat address nat
  | set_sparse_block nat address nat
  | set_external_block nat address nat
  | set_array nat "'dt TypedTensor"
  | column_allocate_data nat nat

text \<open>
  The state reached through \<open>agg\<close>: the calls it has received (oldest first;
  \<open>column_allocate_data col n\<close> is \<open>agg.segment().column(col).allocate_data(n)\<close>), the
  offset slots of each column's buffer (\<open>None\<close>: never stored into), and the segment's
  string pool. The slots and the pool change when the dispatcher stores through
  \<open>out_ptr\<close> and calls \<open>string_pool.get\<close>, and when \<open>agg.set_string_at\<close> works on the
  segment (the comment of line 117: "deduplicate the strings"). What the block calls
  \<open>set_sparse_block\<close>, \<open>set_external_block\<close> and \<open>set_array\<close> attach to a column is
  not part of this state: they appear in the log only.
\<close>

record ('dt, 'pool) Aggregator =
  calls :: "'dt agg_call list"
  column_slots :: "nat \<Rightarrow> nat \<Rightarrow> offset_t option"
  string_pool :: 'pool

subsection \<open>Collaborators declared outside the header\<close>

record ('dt, 'vt, 'obj, 'e, 'pool, 'sk, 'buf) externals =
  visit_tag :: "'dt TypeDescriptor \<Rightarrow> 'dt DataTypeTag"
  is_sequence_type :: "'dt \<Rightarrow> bool"
  is_fixed_string_type :: "'dt \<Rightarrow> bool"
  slice_value_type :: "'dt \<Rightarrow> 'vt"
  is_utf_type :: "'vt \<Rightarrow> bool"
  is_numeric_type :: "'dt \<Rightarrow> bool"
  is_bool_type :: "'dt \<Rightarrow> bool"
  is_floating_point_type :: "'dt \<Rightarrow> bool"
  is_empty_type :: "'dt \<Rightarrow> bool"
  is_cstyle_array :: "nat \<Rightarrow> 'dt NativeTensor \<Rightarrow> bool"
  ptr_cast :: "nat \<Rightarrow> 'dt NativeTensor \<Rightarrow> nat \<Rightarrow> address"
  typed_tensor_data :: "'dt TypedTensor \<Rightarrow> address"
  flattener_flatten :: "'dt TypedTensor \<Rightarrow> address \<Rightarrow> nat \<Rightarrow> 'obj"
  flattener_source_after :: "'dt TypedTensor \<Rightarrow> address \<Rightarrow> address \<Rightarrow> 'obj"
  memory :: "address \<Rightarrow> 'obj"
  sizeof_PyObject_ptr :: nat
  none_ptr :: 'obj
  is_py_nan :: "'obj \<Rightarrow> bool"
  py_unicode_to_buffer :: "'obj \<Rightarrow> bool \<Rightarrow> 'e wrapper_or_error \<times> bool"
  pystring_to_buffer :: "'obj \<Rightarrow> bool \<Rightarrow> 'e wrapper_or_error"
  sizeof_offset_t :: nat
  not_a_string :: offset_t
  nan_placeholder :: offset_t
  string_pool_get :: "'pool \<Rightarrow> string \<Rightarrow> nat \<Rightarrow> offset_t \<times> 'pool"
  get_string_from_pool :: "offset_t \<Rightarrow> 'pool \<Rightarrow> error + string"
  get_offset_string_at :: "nat \<Rightarrow> 'buf \<Rightarrow> offset_t"
  first_context_row :: "'sk \<Rightarrow> nat \<Rightarrow> error + nat"
  row_range_diff :: "'sk \<Rightarrow> nat"
  agg_set_string_at ::
    "nat \<Rightarrow> nat \<Rightarrow> address \<Rightarrow> nat \<Rightarrow> (nat \<Rightarrow> nat \<Rightarrow> offset_t option) \<times> 'pool
       \<Rightarrow> (nat \<Rightarrow> nat \<Rightarrow> offset_t option) \<times> 'pool"

text \<open>
  \<^item> \<open>visit_tag\<close>: the tag \<open>type_desc.visit_tag\<close> hands to the visitor; its
    \<open>DataTypeTag::data_type\<close> and \<open>sizeof(RawType)\<close> are the fields of \<open>DataTypeTag\<close>.
  \<^item> \<open>is_cstyle_array sz tensor\<close> is \<open>util::is_cstyle_array<RawType>(tensor)\<close> and
    \<open>ptr_cast sz tensor row\<close> is \<open>tensor.ptr_cast<RawType>(row)\<close>, with
    \<open>sz = sizeof(RawType)\<close>.
  \<^item> \<open>typed_tensor_data t\<close> is \<open>t.data()\<close>; \<open>flattener_flatten t src i\<close> is the
    element that \<open>FlattenHelper{t}.flatten(dst, src)\<close> leaves in \<open>dst[i]\<close>, and
    \<open>flattener_source_after t src\<close> is the caller's memory as that call leaves it.
  \<^item> \<open>memory a\<close> is the handle stored at byte address \<open>a\<close> of the caller's frame.
  \<^item> \<open>py_unicode_to_buffer h lock\<close> receives the optional \<open>ScopedGILLock\<close> by reference
    (\<open>True\<close>: engaged) and returns it with the variant.
  \<^item> \<open>string_pool_get pool buffer length\<close> is \<open>string_pool.get(buffer, length)\<close>
    followed by \<open>.offset()\<close>, with the pool after the call.
  \<^item> \<open>row_range_diff sk\<close> is \<open>sk.slice_.row_range.diff()\<close>.
  \<^item> \<open>agg_set_string_at col s char_data str_len (slots, pool)\<close> is what
    \<open>agg.set_string_at(col, s, char_data, str_len)\<close> makes of the offset slots and of
    the string pool of the segment.
\<close>

record ('sk, 'pool) PipelineContextRow =
  slice_and_key :: 'sk
  context_string_pool :: 'pool

subsection \<open>\<open>get_max_string_size\<close> (lines 34 to 47)\<close>

partial_function (option) max_string_rows ::
  "('dt, 'vt, 'obj, 'e, 'pool, 'sk, 'buf) externals \<Rightarrow> 'pool \<Rightarrow> 'buf \<Rightarrow> nat \<Rightarrow> nat
     \<Rightarrow> 32 word \<Rightarrow> nat \<Rightarrow> (error + nat) option"
where
  "max_string_rows X pool src offset num_rows row max_length =
     (if unat row < num_rows then
        (let offset_val = get_offset_string_at X (offset + unat row) src in
         if offset_val = nan_placeholder X \<or> offset_val = not_a_string X
         then max_string_rows X pool src offset num_rows (row + 1) max_length
         else
           (case get_string_from_pool X offset_val pool of
              Inl e \<Rightarrow> Some (Inl e)
            | Inr str \<Rightarrow>
                max_string_rows X pool src offset num_rows (row + 1)
                  (max max_length (length str))))
      else Some (Inr max_length))"

definition get_max_string_size ::
  "('dt, 'vt, 'obj, 'e, 'pool, 'sk, 'buf) externals \<Rightarrow> ('sk, 'pool) PipelineContextRow
     \<Rightarrow> 'buf \<Rightarrow> nat \<Rightarrow> (error + nat) option"
where
  "get_max_string_size X context_row src first_row_in_frame =
     (case first_context_row X (slice_and_key context_row) first_row_in_frame of
        Inl e \<Rightarrow> Some (Inl e)
      | Inr offset \<Rightarrow>
          (let num_rows = row_range_diff X (slice_and_key context_row) in
           max_string_rows X (context_string_pool context_row) src offset num_rows 0 0))"

subsection \<open>\<open>flatten_tensor\<close> (lines 77 to 91)\<close>

text \<open>
  Lines 85 to 90. The fresh buffer has \<open>rows_to_write * sizeof(RawType)\<close> bytes, a
  product of two \<open>size_t\<close>; the flattener is handed \<open>flattened_buffer->data()\<close> as
  destination and \<open>t.data()\<close> as source, so what it leaves behind the destination is
  the buffer's content. The function assigns \<open>flattened_buffer\<close> and returns
  \<open>flattened_buffer->data()\<close>: both are returned here. The element type \<open>'obj\<close> of the
  memory stands for \<open>RawType\<close>.
\<close>

definition flatten_tensor ::
  "('dt, 'vt, 'obj, 'e, 'pool, 'sk, 'buf) externals \<Rightarrow> nat \<Rightarrow> nat \<Rightarrow> 'dt NativeTensor
     \<Rightarrow> nat \<Rightarrow> nat \<Rightarrow> 'obj ChunkedBuffer option \<times> 'obj ptr"
where
  "flatten_tensor X sizeof_RawType rows_to_write tensor slice_num regular_slice_size =
     (let t = TypedTensor tensor slice_num regular_slice_size rows_to_write;
          flattened_buffer =
            \<lparr>bytes = size_t_mult rows_to_write sizeof_RawType,
             cells = flattener_flatten X t (typed_tensor_data X t)\<rparr>
      in (Some flattened_buffer, FlattenedBuffer (cells flattened_buffer) 0))"

text \<open>
  The caller's memory after \<open>flatten_tensor\<close>. The function itself stores into nothing
  but \<open>flattened_buffer\<close>; the tensor is a reference to const and the flattener gets
  the source as a pointer to const (line 89), so the memory of the view after the call
  is the memory the flattener leaves.
\<close>

definition flatten_tensor_source ::
  "('dt, 'vt, 'obj, 'e, 'pool, 'sk, 'buf) externals \<Rightarrow> nat \<Rightarrow> nat \<Rightarrow> 'dt NativeTensor
     \<Rightarrow> nat \<Rightarrow> nat \<Rightarrow> address \<Rightarrow> 'obj"
where
  "flatten_tensor_source X sizeof_RawType rows_to_write tensor slice_num regular_slice_size =
     (let t = TypedTensor tensor slice_num regular_slice_size rows_to_write
      in flattener_source_after X t (typed_tensor_data X t))"

subsection \<open>\<open>aggregator_set_data\<close> (lines 93 to 198)\<close>

fun deref :: "('dt, 'vt, 'obj, 'e, 'pool, 'sk, 'buf) externals \<Rightarrow> 'obj ptr \<Rightarrow> 'obj" where
  "deref X (ExternalMemory a) = memory X a"
| "deref X (FlattenedBuffer content i) = content i"

fun ptr_incr :: "('dt, 'vt, 'obj, 'e, 'pool, 'sk, 'buf) externals \<Rightarrow> 'obj ptr \<Rightarrow> 'obj ptr" where
  "ptr_incr X (ExternalMemory a) = ExternalMemory (a + int (sizeof_PyObject_ptr X))"
| "ptr_incr X (FlattenedBuffer content i) = FlattenedBuffer content (Suc i)"

text \<open>What the loop of lines 144 to 168 carries from row to row.\<close>

record ('dt, 'pool) row_state =
  out_ptr :: nat
  gil_lock :: bool
  aggregator :: "('dt, 'pool) Aggregator"

datatype ('r, 's) step = Next 's | Leave 'r 's

text \<open>\<open>*out_ptr++ = v\<close> on the buffer of column \<open>col\<close>.\<close>

definition store_offset :: "nat \<Rightarrow> offset_t \<Rightarrow> ('dt, 'pool) row_state \<Rightarrow> ('dt, 'pool) row_state" where
  "store_offset col v st =
     st\<lparr>out_ptr := out_ptr st + 1,
        aggregator := (aggregator st)\<lparr>column_slots :=
          (column_slots (aggregator st))
            (col := (column_slots (aggregator st) col)(out_ptr st \<mapsto> v))\<rparr>\<rparr>"

text \<open>
  Lines 150 to 154: the UTF flavoured tag decodes with \<open>py_unicode_to_buffer\<close>, which
  is handed the lock, any other tag with \<open>pystring_to_buffer(*ptr_data, false)\<close>.
\<close>

definition decode_handle ::
  "('dt, 'vt, 'obj, 'e, 'pool, 'sk, 'buf) externals \<Rightarrow> bool \<Rightarrow> 'obj \<Rightarrow> bool
     \<Rightarrow> 'e wrapper_or_error \<times> bool"
where
  "decode_handle X utf h lock =
     (if utf then py_unicode_to_buffer X h lock else (pystring_to_buffer X h False, lock))"

text \<open>The body of the loop, lines 145 to 167, at row \<open>s\<close> with \<open>h = *ptr_data\<close>.\<close>

definition set_string_row ::
  "('dt, 'vt, 'obj, 'e, 'pool, 'sk, 'buf) externals \<Rightarrow> bool \<Rightarrow> nat \<Rightarrow> nat \<Rightarrow> 'obj
     \<Rightarrow> ('dt, 'pool) row_state
     \<Rightarrow> (error + 'e StringEncodingError option, ('dt, 'pool) row_state) step"
where
  "set_string_row X utf col s h st =
     (if h = none_ptr X then Next (store_offset col (not_a_string X) st)
      else if is_py_nan X h then Next (store_offset col (nan_placeholder X) st)
      else
        (let (wrapper_or_error, lock) = decode_handle X utf h (gil_lock st);
             st = st\<lparr>gil_lock := lock\<rparr>
         in case wrapper_or_error of
              Wrapper wrapper \<Rightarrow>
                (let (offset, pool) =
                       string_pool_get X (string_pool (aggregator st))
                         (wrapper_buffer wrapper) (wrapper_length wrapper)
                 in Next (store_offset col offset (st\<lparr>aggregator := (aggregator st)\<lparr>string_pool := pool\<rparr>\<rparr>)))
            | EncodingError error \<Rightarrow>
                Leave (Inr (Some (error\<lparr>row_index_in_slice := s\<rparr>))) st
            | Valueless \<Rightarrow>
                Leave (Inl (E_ASSERTION_FAILURE ''Unexpected variant alternative'')) st))"

function string_rows ::
  "('dt, 'vt, 'obj, 'e, 'pool, 'sk, 'buf) externals \<Rightarrow> bool \<Rightarrow> nat \<Rightarrow> nat \<Rightarrow> nat \<Rightarrow> 'obj ptr
     \<Rightarrow> ('dt, 'pool) row_state
     \<Rightarrow> (error + 'e StringEncodingError option) \<times> ('dt, 'pool) row_state"
where
  "string_rows X utf col rows_to_write s ptr_data st =
     (if s < rows_to_write then
        (case set_string_row X utf col s (deref X ptr_data) st of
           Next st' \<Rightarrow> string_rows X utf col rows_to_write (Suc s) (ptr_incr X ptr_data) st'
         | Leave r st' \<Rightarrow> (r, st'))
      else (Inr None, st))"
  by pat_completeness auto
termination
  by (relation "measure (\<lambda>(X, utf, col, rows_to_write, s, ptr_data, st). rows_to_write - s)") auto

text \<open>
  One call \<open>agg.set_string_at(col, s, char_data, str_len)\<close>: the call is logged, and the
  slots and the pool of the segment become what the aggregator's method makes of them.
\<close>

definition call_set_string_at ::
  "('dt, 'vt, 'obj, 'e, 'pool, 'sk, 'buf) externals \<Rightarrow> nat \<Rightarrow> nat \<Rightarrow> address \<Rightarrow> nat
     \<Rightarrow> ('dt, 'pool) Aggregator \<Rightarrow> ('dt, 'pool) Aggregator"
where
  "call_set_string_at X col s char_data str_len agg =
     (let (slots, pool) =
            agg_set_string_at X col s char_data str_len (column_slots agg, string_pool agg)
      in agg\<lparr>calls := calls agg @ [set_string_at col s char_data str_len],
             column_slots := slots, string_pool := pool\<rparr>)"

text \<open>The loop of lines 123 to 125.\<close>

function fixed_string_rows ::
  "('dt, 'vt, 'obj, 'e, 'pool, 'sk, 'buf) externals \<Rightarrow> nat \<Rightarrow> nat \<Rightarrow> int \<Rightarrow> nat \<Rightarrow> nat
     \<Rightarrow> address \<Rightarrow> ('dt, 'pool) Aggregator \<Rightarrow> ('dt, 'pool) Aggregator"
where
  "fixed_string_rows X col str_len str_stride rows_to_write s char_data agg =
     (if s < rows_to_write then
        fixed_string_rows X col str_len str_stride rows_to_write (Suc s) (char_data + str_stride)
          (call_set_string_at X col s char_data str_len agg)
      else agg)"
  by pat_completeness auto
termination
  by (relation "measure (\<lambda>(X, col, str_len, str_stride, rows_to_write, s, char_data, agg).
                  rows_to_write - s)")
    auto

text \<open>
  What a call leaves behind: the value returned or the exception raised, the aggregator,
  and the two locals \<open>flattened_buffer\<close> and \<open>scoped_gil_lock\<close> as they stand when the
  visitor is left (\<open>None\<close> and \<open>False\<close> when they were never assigned).
\<close>

record ('dt, 'pool, 'obj, 'e) outcome =
  returned :: "error + 'e StringEncodingError option"
  agg_after :: "('dt, 'pool) Aggregator"
  flattened_buffer :: "'obj ChunkedBuffer option"
  scoped_gil_lock :: bool

definition untouched :: "('dt, 'pool) Aggregator \<Rightarrow> ('dt, 'pool, 'obj, 'e) outcome" where
  "untouched agg =
     \<lparr>returned = Inr None, agg_after = agg, flattened_buffer = None, scoped_gil_lock = False\<rparr>"

definition call :: "'dt agg_call \<Rightarrow> ('dt, 'pool) Aggregator \<Rightarrow> ('dt, 'pool) Aggregator" where
  "call c agg = agg\<lparr>calls := calls agg @ [c]\<rparr>"

text \<open>Lines 115 to 169: the branch of \<open>is_sequence_type(dt)\<close>.\<close>

definition set_data_sequence ::
  "('dt, 'vt, 'obj, 'e, 'pool, 'sk, 'buf) externals \<Rightarrow> 'dt \<Rightarrow> bool \<Rightarrow> 'dt NativeTensor
     \<Rightarrow> ('dt, 'pool) Aggregator \<Rightarrow> nat \<Rightarrow> nat \<Rightarrow> nat \<Rightarrow> nat \<Rightarrow> nat
     \<Rightarrow> ('dt, 'pool, 'obj, 'e) outcome"
where
  "set_data_sequence X dt c_style tensor agg col rows_to_write row slice_num regular_slice_size =
     (if is_fixed_string_type X dt then
        (let str_stride = nt_strides0 tensor;
             data = nt_data tensor;
             char_data = data + int row * str_stride;
             str_len = nt_elsize tensor
         in (untouched agg)
              \<lparr>agg_after :=
                 fixed_string_rows X col str_len str_stride rows_to_write 0 char_data agg\<rparr>)
      else
        (let data = nt_data tensor;
             ptr_data = ExternalMemory (data + int row * int (sizeof_PyObject_ptr X));
             (flattened, ptr_data) =
               (if \<not> c_style
                then flatten_tensor X (sizeof_PyObject_ptr X) rows_to_write tensor
                       slice_num regular_slice_size
                else (None, ptr_data));
             agg = call (column_allocate_data col
                          (size_t_mult rows_to_write (sizeof_offset_t X))) agg;
             (r, st) =
               string_rows X (is_utf_type X (slice_value_type X dt)) col rows_to_write 0 ptr_data
                 \<lparr>out_ptr = 0, gil_lock = False, aggregator = agg\<rparr>
         in \<lparr>returned = r, agg_after = aggregator st, flattened_buffer = flattened,
             scoped_gil_lock = gil_lock st\<rparr>))"

text \<open>Lines 171 to 192: the branch of \<open>is_numeric_type(dt) || is_bool_type(dt)\<close>.\<close>

definition set_data_numeric ::
  "('dt, 'vt, 'obj, 'e, 'pool, 'sk, 'buf) externals \<Rightarrow> 'dt \<Rightarrow> nat \<Rightarrow> bool \<Rightarrow> 'dt NativeTensor
     \<Rightarrow> ('dt, 'pool) Aggregator \<Rightarrow> nat \<Rightarrow> nat \<Rightarrow> nat \<Rightarrow> nat \<Rightarrow> nat \<Rightarrow> bool
     \<Rightarrow> ('dt, 'pool, 'obj, 'e) outcome"
where
  "set_data_numeric X dt sizeof_RawType c_style tensor agg col rows_to_write row slice_num
       regular_slice_size sparsify_floats =
     (let ptr = ptr_cast X sizeof_RawType tensor row in
      if sparsify_floats then
        (if is_floating_point_type X dt
         then (untouched agg)\<lparr>agg_after := call (set_sparse_block col ptr rows_to_write) agg\<rparr>
         else (untouched agg)
                \<lparr>returned :=
                   Inl (E_RUNTIME ''sparse currently supported for floating point columns only.'')\<rparr>)
      else if c_style
        then (untouched agg)\<lparr>agg_after := call (set_external_block col ptr rows_to_write) agg\<rparr>
        else
          (let t = TypedTensor tensor slice_num regular_slice_size rows_to_write
           in (untouched agg)\<lparr>agg_after := call (set_array col t) agg\<rparr>))"

text \<open>
  The visitor of lines 105 to 197, applied to the tag that \<open>visit_tag\<close> selects. The
  two \<open>util::check\<close> calls come first, then the chain of \<open>if constexpr\<close>, then the
  \<open>return\<close> of line 196.
\<close>

definition aggregator_set_data ::
  "('dt, 'vt, 'obj, 'e, 'pool, 'sk, 'buf) externals \<Rightarrow> 'dt TypeDescriptor \<Rightarrow> 'dt NativeTensor
     \<Rightarrow> ('dt, 'pool) Aggregator \<Rightarrow> nat \<Rightarrow> nat \<Rightarrow> nat \<Rightarrow> nat \<Rightarrow> nat \<Rightarrow> bool
     \<Rightarrow> ('dt, 'pool, 'obj, 'e) outcome"
where
  "aggregator_set_data X type_desc tensor agg col rows_to_write row slice_num regular_slice_size
       sparsify_floats =
     (let tag = visit_tag X type_desc;
          dt = tag_data_type tag;
          sizeof_RawType = sizeof_raw_type tag
      in if td_data_type type_desc \<noteq> nt_data_type tensor
         then (untouched agg)\<lparr>returned := Inl (E_CHECK ''Type desc {} != {} tensor type'')\<rparr>
         else if td_data_type type_desc \<noteq> dt
         then (untouched agg)\<lparr>returned := Inl (E_CHECK ''Type desc {} != {} static type'')\<rparr>
         else
           (let c_style = is_cstyle_array X sizeof_RawType tensor
            in if is_sequence_type X dt
               then set_data_sequence X dt c_style tensor agg col rows_to_write row slice_num
                      regular_slice_size
               else if is_numeric_type X dt \<or> is_bool_type X dt
               then set_data_numeric X dt sizeof_RawType c_style tensor agg col rows_to_write row
                      slice_num regular_slice_size sparsify_floats
               else if \<not> is_empty_type X dt
               then (untouched agg)\<lparr>returned := Inl (E_STATIC_ASSERT ''Unknown data type'')\<rparr>
               else untouched agg))"

subsection \<open>The rows of a text column, as lists\<close>

text \<open>The \<open>n\<close> handles that the loop reads from \<open>ptr_data\<close> on, first row first.\<close>

primrec handles ::
  "('dt, 'vt, 'obj, 'e, 'pool, 'sk, 'buf) externals \<Rightarrow> 'obj ptr \<Rightarrow> nat \<Rightarrow> 'obj list"
where
  "handles X p 0 = []"
| "handles X p (Suc n) = deref X p # handles X (ptr_incr X p) n"

text \<open>
  The per-row policy in the words of section 4.4 of the specification, to be compared
  with the loop: a handle that represents "no value" gives \<open>NOT_A_STRING\<close>, a
  not-a-number marker gives \<open>NAN_PLACEHOLDER\<close>, any other handle is decoded, the result
  is interned into the pool and the returned offset is written. \<open>decoded h\<close> is the
  wrapper that decoding \<open>h\<close> yields. \<open>spec_intern_row\<close> gives the offset of one row and
  the pool after it, \<open>spec_intern_rows\<close> the offsets of the rows, first row first, and the
  pool after the last row.
\<close>

definition spec_intern_row ::
  "('dt, 'vt, 'obj, 'e, 'pool, 'sk, 'buf) externals \<Rightarrow> ('obj \<Rightarrow> PyStringWrapper) \<Rightarrow> 'obj
     \<Rightarrow> 'pool \<Rightarrow> offset_t \<times> 'pool"
where
  "spec_intern_row X decoded h pool =
     (if h = none_ptr X then (not_a_string X, pool)
      else if is_py_nan X h then (nan_placeholder X, pool)
      else string_pool_get X pool (wrapper_buffer (decoded h)) (wrapper_length (decoded h)))"

fun spec_intern_rows ::
  "('dt, 'vt, 'obj, 'e, 'pool, 'sk, 'buf) externals \<Rightarrow> ('obj \<Rightarrow> PyStringWrapper) \<Rightarrow> 'obj list
     \<Rightarrow> 'pool \<Rightarrow> offset_t list \<times> 'pool"
where
  "spec_intern_rows X decoded [] pool = ([], pool)"
| "spec_intern_rows X decoded (h # hs) pool =
     (let (offset, pool1) = spec_intern_row X decoded h pool;
          (offsets, pool') = spec_intern_rows X decoded hs pool1
      in (offset # offsets, pool'))"

text \<open>
  A row is plain for \<open>decoded\<close> when its handle is the "no value" marker, a not-a-number
  marker, or decodes to the wrapper \<open>decoded h\<close> whatever the state of the lock.
\<close>

definition plain_row ::
  "('dt, 'vt, 'obj, 'e, 'pool, 'sk, 'buf) externals \<Rightarrow> bool \<Rightarrow> ('obj \<Rightarrow> PyStringWrapper) \<Rightarrow> 'obj
     \<Rightarrow> bool"
where
  "plain_row X utf decoded h =
     (h = none_ptr X \<or> is_py_nan X h \<or>
      (\<forall>lock. fst (decode_handle X utf h lock) = Wrapper (decoded h)))"

subsection \<open>The behaviour the specification gives to collaborators\<close>

text \<open>
  Modelled from the spec: \<open>util::FlattenHelper\<close> (\<open>util/flatten_utils.hpp\<close>) is not part
  of the sources at hand. Section 4.3: the flattener fills the new buffer with "the
  gathered values in row order, using the view's stride to locate each source element".
  And: "No in-place mutation of the source view." A flattener gathers when element
  \<open>i\<close> of the destination is the element of the caller's memory found \<open>i\<close> strides
  after the source pointer, for every row of the view, and the caller's memory is after
  the call what it was before.
\<close>

definition flattener_gathers :: "('dt, 'vt, 'obj, 'e, 'pool, 'sk, 'buf) externals \<Rightarrow> bool" where
  "flattener_gathers X =
     ((\<forall>t src i. i < tt_rows t \<longrightarrow>
         flattener_flatten X t src i = memory X (src + int i * nt_strides0 (tt_tensor t))) \<and>
      (\<forall>t src. flattener_source_after X t src = memory X))"

text \<open>
  Modelled from the spec: \<open>set_external_block\<close> and \<open>set_array\<close> are members of the
  \<open>Aggregator\<close> template parameter, defined outside the sources at hand. Section 4.4: a
  C-style view is referenced "directly with no copy -- the resulting Column's data is a
  non-owning view"; otherwise the view is flattened "into an owned contiguous buffer of
  the raw type" which is attached "as the column's typed array (now independently owned,
  no external lifetime coupling)". \<open>spec_attach\<close> is the data a column holds after such a
  call, \<open>column_values mem sz d\<close> the values read back from it when the caller's
  memory is \<open>mem\<close> and an element has \<open>sz\<close> bytes.
\<close>

datatype 'v column_data =
    Borrowed address nat
  | Owned "'v list"

definition spec_flatten :: "(address \<Rightarrow> 'v) \<Rightarrow> address \<Rightarrow> int \<Rightarrow> nat \<Rightarrow> 'v list" where
  "spec_flatten mem src stride rows = map (\<lambda>i. mem (src + int i * stride)) [0..<rows]"

fun spec_attach ::
  "('dt, 'vt, 'obj, 'e, 'pool, 'sk, 'buf) externals \<Rightarrow> 'dt agg_call \<Rightarrow> 'obj column_data option"
where
  "spec_attach X (set_external_block col p rows) = Some (Borrowed p rows)"
| "spec_attach X (set_array col t) =
     Some (Owned (spec_flatten (memory X) (typed_tensor_data X t) (nt_strides0 (tt_tensor t))
                    (tt_rows t)))"
| "spec_attach X _ = None"

fun column_values :: "(address \<Rightarrow> 'v) \<Rightarrow> nat \<Rightarrow> 'v column_data \<Rightarrow> 'v list" where
  "column_values mem sz (Borrowed p rows) = map (\<lambda>i. mem (p + int i * int sz)) [0..<rows]"
| "column_values mem sz (Owned xs) = xs"

text \<open>
  Modelled from the spec: \<open>convert::py_unicode_to_buffer\<close> (\<open>python_to_tensor_frame.hpp\<close>)
  is not part of the sources at hand. Section 5 and the comment of lines 135 to 138: the
  lock is acquired "only upon encountering the first value in a column that requires
  runtime-level decoding (i.e., is not already plain ASCII/UTF-8 bytes)". The decoder
  is handed the optional lock by reference: it engages the lock exactly for a value that
  \<open>requires_runtime\<close> decoding, and leaves an engaged lock engaged.
\<close>

definition lazy_gil ::
  "('dt, 'vt, 'obj, 'e, 'pool, 'sk, 'buf) externals \<Rightarrow> ('obj \<Rightarrow> bool) \<Rightarrow> bool"
where
  "lazy_gil X requires_runtime =
     (\<forall>h lock. snd (py_unicode_to_buffer X h lock) = (lock \<or> requires_runtime h))"

subsection \<open>An instance of the collaborators\<close>

text \<open>
  A small instance of the record \<open>externals\<close>, to run the code of the header on
  concrete frames. Data types are a handful of tags; Python objects are the \<open>None\<close>
  object, a float not-a-number, a string that is plain ASCII, a string whose decoding
  needs the interpreter, and an object that does not decode. Modelled from the spec
  (section 4.2): the pool interns by content, equal content gets the offset it got
  first, and the two reserved offsets are never handed out for content.
\<close>

datatype example_type =
    FLOAT64 | INT64 | BOOL8 | ASCII_FIXED64 | ASCII_DYNAMIC64 | UTF_DYNAMIC64 | EMPTYVAL
  | UNKNOWN

datatype py_object = PyNone | PyNaN | PyPlain string | PyRuntime string | PyUndecodable

fun pool_offset_of :: "string list \<Rightarrow> string \<Rightarrow> nat option" where
  "pool_offset_of [] s = None"
| "pool_offset_of (x # xs) s = (if x = s then Some 0 else map_option Suc (pool_offset_of xs s))"

definition example_pool_get :: "string list \<Rightarrow> string \<Rightarrow> nat \<Rightarrow> offset_t \<times> string list" where
  "example_pool_get pool buffer len =
     (case pool_offset_of pool (take len buffer) of
        Some offset \<Rightarrow> (offset, pool)
      | None \<Rightarrow> (length pool, pool @ [take len buffer]))"

fun example_unicode_to_buffer :: "py_object \<Rightarrow> bool \<Rightarrow> string wrapper_or_error \<times> bool" where
  "example_unicode_to_buffer (PyPlain s) lock =
     (Wrapper \<lparr>wrapper_buffer = s, wrapper_length = length s\<rparr>, lock)"
| "example_unicode_to_buffer (PyRuntime s) lock =
     (Wrapper \<lparr>wrapper_buffer = s, wrapper_length = length s\<rparr>, True)"
| "example_unicode_to_buffer h lock =
     (EncodingError \<lparr>detail = ''undecodable'', row_index_in_slice = 0\<rparr>, lock)"

text \<open>
  The raw copy of \<open>pystring_to_buffer\<close> takes the bytes of a plain string and fails on
  anything else, also on a string that only the interpreter can decode.
\<close>

fun example_string_to_buffer :: "py_object \<Rightarrow> string wrapper_or_error" where
  "example_string_to_buffer (PyPlain s) =
     Wrapper \<lparr>wrapper_buffer = s, wrapper_length = length s\<rparr>"
| "example_string_to_buffer h =
     EncodingError \<lparr>detail = ''undecodable'', row_index_in_slice = 0\<rparr>"

text \<open>
  The instance's \<open>set_string_at\<close> does what the comment of line 117 says,
  "deduplicate the strings": it interns the characters found at \<open>char_data\<close> into the
  pool and stores the offset into slot \<open>s\<close> of the column.
\<close>

definition example_set_string_at ::
  "(address \<Rightarrow> py_object) \<Rightarrow> nat \<Rightarrow> nat \<Rightarrow> address \<Rightarrow> nat
     \<Rightarrow> (nat \<Rightarrow> nat \<Rightarrow> offset_t option) \<times> string list
     \<Rightarrow> (nat \<Rightarrow> nat \<Rightarrow> offset_t option) \<times> string list"
where
  "example_set_string_at mem col s char_data str_len segment =
     (case mem char_data of
        PyPlain str \<Rightarrow>
          (let (offset, pool) = example_pool_get (snd segment) str str_len
           in ((fst segment)(col := (fst segment col)(s \<mapsto> offset)), pool))
      | _ \<Rightarrow> segment)"

fun example_requires_runtime :: "py_object \<Rightarrow> bool" where
  "example_requires_runtime (PyRuntime s) = True"
| "example_requires_runtime h = False"

definition example_externals ::
  "(address \<Rightarrow> py_object)
     \<Rightarrow> (example_type, example_type, py_object, string, string list, nat \<times> nat, nat \<Rightarrow> offset_t)
          externals"
where
  "example_externals mem =
     \<lparr>visit_tag = (\<lambda>type_desc. \<lparr>tag_data_type = td_data_type type_desc, sizeof_raw_type = 8\<rparr>),
      is_sequence_type = (\<lambda>dt. dt = ASCII_FIXED64 \<or> dt = ASCII_DYNAMIC64 \<or> dt = UTF_DYNAMIC64),
      is_fixed_string_type = (\<lambda>dt. dt = ASCII_FIXED64),
      slice_value_type = (\<lambda>dt. dt),
      is_utf_type = (\<lambda>vt. vt = UTF_DYNAMIC64),
      is_numeric_type = (\<lambda>dt. dt = FLOAT64 \<or> dt = INT64),
      is_bool_type = (\<lambda>dt. dt = BOOL8),
      is_floating_point_type = (\<lambda>dt. dt = FLOAT64),
      is_empty_type = (\<lambda>dt. dt = EMPTYVAL),
      is_cstyle_array = (\<lambda>sz tensor. nt_strides0 tensor = int sz),
      ptr_cast = (\<lambda>sz tensor row. nt_data tensor + int row * nt_strides0 tensor),
      typed_tensor_data =
        (\<lambda>t. nt_data (tt_tensor t) +
              int (tt_slice_num t * tt_regular_slice_size t) * nt_strides0 (tt_tensor t)),
      flattener_flatten = (\<lambda>t src i. mem (src + int i * nt_strides0 (tt_tensor t))),
      flattener_source_after = (\<lambda>t src. mem),
      memory = mem,
      sizeof_PyObject_ptr = 8,
      none_ptr = PyNone,
      is_py_nan = (\<lambda>h. h = PyNaN),
      py_unicode_to_buffer = example_unicode_to_buffer,
      pystring_to_buffer = (\<lambda>h b. example_string_to_buffer h),
      sizeof_offset_t = 8,
      not_a_string = 18446744073709551614,
      nan_placeholder = 18446744073709551613,
      string_pool_get = example_pool_get,
      get_string_from_pool =
        (\<lambda>offset pool. if offset < length pool then Inr (pool ! offset)
                        else Inl (E_CHECK ''offset not in pool'')),
      get_offset_string_at = (\<lambda>i src. src i),
      first_context_row =
        (\<lambda>sk first_row_in_frame.
           if fst sk \<le> first_row_in_frame \<and> first_row_in_frame < snd sk
           then Inr (first_row_in_frame - fst sk)
           else Inl (E_CHECK ''row outside the slice'')),
      row_range_diff = (\<lambda>sk. snd sk - fst sk),
      agg_set_string_at = example_set_string_at mem\<rparr>"

text \<open>Frame memory holding the handles \<open>hs\<close> at \<open>base\<close>, \<open>base + stride\<close>, and so on.\<close>

definition rows_at :: "address \<Rightarrow> int \<Rightarrow> py_object list \<Rightarrow> address \<Rightarrow> py_object" where
  "rows_at base stride hs a =
     (if base \<le> a \<and> (a - base) mod stride = 0 \<and> nat ((a - base) div stride) < length hs
      then hs ! nat ((a - base) div stride)
      else PyUndecodable)"

text \<open>
  An empty aggregator, a one-dimensional tensor at address 4096, and the rows of the
  round-trip example of section 8 of the specification.
\<close>

definition example_agg :: "(example_type, string list) Aggregator" where
  "example_agg = \<lparr>calls = [], column_slots = (\<lambda>col i. None), string_pool = []\<rparr>"

definition example_tensor :: "example_type \<Rightarrow> int \<Rightarrow> example_type NativeTensor" where
  "example_tensor dt stride =
     \<lparr>nt_data_type = dt, nt_data = 4096, nt_strides0 = stride, nt_elsize = 8\<rparr>"

definition example_rows :: "py_object list" where
  "example_rows = [PyPlain ''a'', PyNone, PyPlain ''bb'', PyNaN, PyPlain ''a'']"


text \<open>A frame of three fixed-width strings, the first and the last equal.\<close>

definition example_fixed_rows :: "py_object list" where
  "example_fixed_rows = [PyPlain ''ab'', PyPlain ''cd'', PyPlain ''ab'']"

text \<open>A frame of four rows whose row 2 is the first that needs the interpreter.\<close>

definition example_runtime_rows :: "py_object list" where
  "example_runtime_rows = [PyPlain ''a'', PyNone, PyRuntime ''b'', PyPlain ''c'']"

text \<open>The wrapper that the instance's decoders yield for a handle that decodes.\<close>

fun example_decoded :: "py_object \<Rightarrow> PyStringWrapper" where
  "example_decoded (PyPlain s) = \<lparr>wrapper_buffer = s, wrapper_length = length s\<rparr>"
| "example_decoded (PyRuntime s) = \<lparr>wrapper_buffer = s, wrapper_length = length s\<rparr>"
| "example_decoded h = \<lparr>wrapper_buffer = [], wrapper_length = 0\<rparr>"

declare max_string_rows.simps [code]
declare string_rows.simps [simp del]
declare fixed_string_rows.simps [simp del]

section \<open>The loops\<close>

subsection \<open>Fixed-width strings\<close>

lemma call_set_string_at_sel [simp]:
  "calls (call_set_string_at X col s p len agg) = calls agg @ [set_string_at col s p len]"
  "(column_slots (call_set_string_at X col s p len agg),
    string_pool (call_set_string_at X col s p len agg)) =
     agg_set_string_at X col s p len (column_slots agg, string_pool agg)"
  by (simp_all add: call_set_string_at_def split_beta)

lemma fixed_string_rows_calls:
  "calls (fixed_string_rows X col len stride n s p agg) =
     calls agg @ map (\<lambda>k. set_string_at col k (p + int (k - s) * stride) len) [s..<n]"
proof (induction X col len stride n s p agg rule: fixed_string_rows.induct)
  case (1 X col len stride n s p agg)
  show ?case
  proof (cases "s < n")
    case False
    then show ?thesis by (simp add: fixed_string_rows.simps)
  next
    case True
    have eq: "map (\<lambda>k. set_string_at col k (p + stride + int (k - Suc s) * stride) len) [Suc s..<n]
            = map (\<lambda>k. set_string_at col k (p + int (k - s) * stride) len) [Suc s..<n]"
    proof (rule map_cong [OF refl])
      fix k assume "k \<in> set [Suc s..<n]"
      then have "int (k - s) = int (k - Suc s) + 1" by auto
      then show "set_string_at col k (p + stride + int (k - Suc s) * stride) len
               = set_string_at col k (p + int (k - s) * stride) len"
        by (simp add: algebra_simps)
    qed
    from True have "fixed_string_rows X col len stride n s p agg =
      fixed_string_rows X col len stride n (Suc s) (p + stride)
        (call_set_string_at X col s p len agg)"
      by (subst fixed_string_rows.simps) simp
    then have "calls (fixed_string_rows X col len stride n s p agg) =
      calls agg @ [set_string_at col s p len] @
        map (\<lambda>k. set_string_at col k (p + stride + int (k - Suc s) * stride) len) [Suc s..<n]"
      using "1.IH" [OF True] by simp
    then show ?thesis using True by (simp add: eq upt_conv_Cons)
  qed
qed

text \<open>
  The slots and the pool after the loop are what the \<open>set_string_at\<close> calls, one after
  the other, make of the slots and the pool the loop found: nothing else works on them.
\<close>

lemma fixed_string_rows_segment:
  "(column_slots (fixed_string_rows X col len stride n s p agg),
    string_pool (fixed_string_rows X col len stride n s p agg)) =
     foldl (\<lambda>segment k. agg_set_string_at X col k (p + int (k - s) * stride) len segment)
       (column_slots agg, string_pool agg) [s..<n]"
proof (induction X col len stride n s p agg rule: fixed_string_rows.induct)
  case (1 X col len stride n s p agg)
  show ?case
  proof (cases "s < n")
    case False
    then show ?thesis by (simp add: fixed_string_rows.simps)
  next
    case True
    let ?agg = "call_set_string_at X col s p len agg"
    have eq: "foldl (\<lambda>segment k.
                 agg_set_string_at X col k (p + stride + int (k - Suc s) * stride) len segment)
               segment0 [Suc s..<n]
            = foldl (\<lambda>segment k. agg_set_string_at X col k (p + int (k - s) * stride) len segment)
               segment0 [Suc s..<n]"
      for segment0
    proof (rule foldl_cong [OF refl refl])
      fix segment k assume "k \<in> set [Suc s..<n]"
      then have "int (k - s) = int (k - Suc s) + 1" by auto
      then show "agg_set_string_at X col k (p + stride + int (k - Suc s) * stride) len segment
               = agg_set_string_at X col k (p + int (k - s) * stride) len segment"
        by (simp add: algebra_simps)
    qed
    from True have "fixed_string_rows X col len stride n s p agg =
      fixed_string_rows X col len stride n (Suc s) (p + stride) ?agg"
      by (subst fixed_string_rows.simps) simp
    then have "(column_slots (fixed_string_rows X col len stride n s p agg),
                string_pool (fixed_string_rows X col len stride n s p agg)) =
      foldl (\<lambda>segment k.
                 agg_set_string_at X col k (p + stride + int (k - Suc s) * stride) len segment)
               (column_slots ?agg, string_pool ?agg) [Suc s..<n]"
      using "1.IH" [OF True] by simp
    then show ?thesis using True by (simp add: eq upt_conv_Cons)
  qed
qed

subsection \<open>Interned strings\<close>

lemma set_string_row_Leave:
  "set_string_row X utf col s h st = Leave r st' \<Longrightarrow> r \<noteq> Inr None"
  by (auto simp: set_string_row_def Let_def split: if_splits prod.splits wrapper_or_error.splits)

lemma handles_funpow: "k < n \<Longrightarrow> handles X p n ! k = deref X ((ptr_incr X ^^ k) p)"
proof (induction n arbitrary: p k)
  case 0
  then show ?case by simp
next
  case (Suc n)
  then show ?case by (cases k) (simp_all add: funpow_swap1)
qed

lemma length_handles [simp]: "length (handles X p n) = n"
  by (induction n arbitrary: p) simp_all

lemma string_rows_split:
  "s \<le> m \<Longrightarrow> m \<le> n \<Longrightarrow>
   string_rows X utf col n s p st =
     (case string_rows X utf col m s p st of
        (Inr None, st') \<Rightarrow> string_rows X utf col n m ((ptr_incr X ^^ (m - s)) p) st'
      | (r, st') \<Rightarrow> (r, st'))"
proof (induction X utf col m s p st rule: string_rows.induct)
  case (1 X utf col m s p st)
  show ?case
  proof (cases "s < m")
    case False
    with "1.prems" have "s = m" by simp
    then show ?thesis by (simp add: string_rows.simps [of X utf col m m])
  next
    case True
    with "1.prems" have sn: "s < n" by simp
    show ?thesis
    proof (cases "set_string_row X utf col s (deref X p) st")
      case (Leave r st')
      then have "r \<noteq> Inr None" by (rule set_string_row_Leave)
      with Leave True sn show ?thesis
        by (simp add: string_rows.simps [of X utf col n s] string_rows.simps [of X utf col m s]
            split: sum.splits option.splits)
    next
      case (Next st')
      have ptr_eq: "(ptr_incr X ^^ (m - Suc s)) (ptr_incr X p) = (ptr_incr X ^^ (m - s)) p"
        using True by (metis Suc_diff_Suc funpow_Suc_right comp_apply)
      from True "1.prems" have "Suc s \<le> m" "m \<le> n" by simp_all
      note ih = "1.IH" [OF True Next this, unfolded ptr_eq]
      from Next True sn show ?thesis
        by (simp add: string_rows.simps [of X utf col n s] string_rows.simps [of X utf col m s] ih)
    qed
  qed
qed


lemma set_string_row_plain:
  assumes "plain_row X utf decoded h"
  shows "\<exists>st1. set_string_row X utf col s h st = Next st1 \<and>
           out_ptr st1 = Suc (out_ptr st) \<and>
           calls (aggregator st1) = calls (aggregator st) \<and>
           string_pool (aggregator st1) =
             snd (spec_intern_row X decoded h (string_pool (aggregator st))) \<and>
           column_slots (aggregator st1) =
             (column_slots (aggregator st))
               (col := (column_slots (aggregator st) col)
                  (out_ptr st \<mapsto> fst (spec_intern_row X decoded h (string_pool (aggregator st)))))"
proof (cases "h = none_ptr X \<or> is_py_nan X h")
  case True
  then show ?thesis
    by (auto simp: set_string_row_def spec_intern_row_def store_offset_def)
next
  case False
  with assms have "fst (decode_handle X utf h (gil_lock st)) = Wrapper (decoded h)"
    by (simp add: plain_row_def)
  then obtain lock where d: "decode_handle X utf h (gil_lock st) = (Wrapper (decoded h), lock)"
    by (cases "decode_handle X utf h (gil_lock st)") simp
  obtain off pool1 where g: "string_pool_get X (string_pool (aggregator st))
      (wrapper_buffer (decoded h)) (wrapper_length (decoded h)) = (off, pool1)"
    by (cases "string_pool_get X (string_pool (aggregator st))
      (wrapper_buffer (decoded h)) (wrapper_length (decoded h))")
  from False d g show ?thesis
    by (simp add: set_string_row_def spec_intern_row_def store_offset_def)
qed

lemma string_rows_plain:
  assumes "\<forall>h \<in> set (handles X p (n - s)). plain_row X utf decoded h"
  shows "\<exists>st'. string_rows X utf col n s p st = (Inr None, st') \<and>
           out_ptr st' = out_ptr st + (n - s) \<and>
           calls (aggregator st') = calls (aggregator st) \<and>
           string_pool (aggregator st') =
             snd (spec_intern_rows X decoded (handles X p (n - s)) (string_pool (aggregator st))) \<and>
           (\<forall>c i. column_slots (aggregator st') c i =
              (if c = col \<and> out_ptr st \<le> i \<and> i < out_ptr st + (n - s)
               then Some (fst (spec_intern_rows X decoded (handles X p (n - s))
                                 (string_pool (aggregator st))) ! (i - out_ptr st))
               else column_slots (aggregator st) c i))"
  using assms
proof (induction X utf col n s p st rule: string_rows.induct)
  case (1 X utf col n s p st)
  show ?case
  proof (cases "s < n")
    case False
    then show ?thesis by (auto simp: string_rows.simps [of X utf col n s])
  next
    case True
    then have ns: "n - s = Suc (n - Suc s)" by simp
    let ?h = "deref X p"
    let ?hs = "handles X (ptr_incr X p) (n - Suc s)"
    have hd: "plain_row X utf decoded ?h" and tl: "\<forall>h \<in> set ?hs. plain_row X utf decoded h"
      using "1.prems" by (simp_all add: ns)
    from set_string_row_plain [OF hd, of col s st] obtain st1 where
      step: "set_string_row X utf col s ?h st = Next st1"
      and op1: "out_ptr st1 = Suc (out_ptr st)"
      and calls1: "calls (aggregator st1) = calls (aggregator st)"
      and pool1: "string_pool (aggregator st1) =
             snd (spec_intern_row X decoded ?h (string_pool (aggregator st)))"
      and slots1: "column_slots (aggregator st1) =
             (column_slots (aggregator st))
               (col := (column_slots (aggregator st) col)
                  (out_ptr st \<mapsto> fst (spec_intern_row X decoded ?h (string_pool (aggregator st)))))"
      by blast
    from "1.IH" [OF True step tl] obtain st' where
      run: "string_rows X utf col n (Suc s) (ptr_incr X p) st1 = (Inr None, st')"
      and op': "out_ptr st' = out_ptr st1 + (n - Suc s)"
      and calls': "calls (aggregator st') = calls (aggregator st1)"
      and pool': "string_pool (aggregator st') =
             snd (spec_intern_rows X decoded ?hs (string_pool (aggregator st1)))"
      and slots': "\<And>c i. column_slots (aggregator st') c i =
              (if c = col \<and> out_ptr st1 \<le> i \<and> i < out_ptr st1 + (n - Suc s)
               then Some (fst (spec_intern_rows X decoded ?hs (string_pool (aggregator st1)))
                            ! (i - out_ptr st1))
               else column_slots (aggregator st1) c i)"
      by blast
    have whole: "string_rows X utf col n s p st = (Inr None, st')"
      using True step run by (simp add: string_rows.simps [of X utf col n s])
    obtain o1 p1 where r1: "spec_intern_row X decoded ?h (string_pool (aggregator st)) = (o1, p1)"
      by (cases "spec_intern_row X decoded ?h (string_pool (aggregator st))")
    obtain os p2 where r2: "spec_intern_rows X decoded ?hs p1 = (os, p2)"
      by (cases "spec_intern_rows X decoded ?hs p1")
    have spec: "spec_intern_rows X decoded (handles X p (n - s)) (string_pool (aggregator st))
                 = (o1 # os, p2)"
      by (simp add: ns r1 r2)
    have "\<forall>c i. column_slots (aggregator st') c i =
              (if c = col \<and> out_ptr st \<le> i \<and> i < out_ptr st + (n - s)
               then Some ((o1 # os) ! (i - out_ptr st))
               else column_slots (aggregator st) c i)"
    proof (intro allI)
      fix c i
      show "column_slots (aggregator st') c i =
              (if c = col \<and> out_ptr st \<le> i \<and> i < out_ptr st + (n - s)
               then Some ((o1 # os) ! (i - out_ptr st))
               else column_slots (aggregator st) c i)"
      proof (cases "c = col \<and> Suc (out_ptr st) \<le> i \<and> i < out_ptr st + (n - s)")
        case True
        then have "i - out_ptr st = Suc (i - Suc (out_ptr st))" by arith
        with True show ?thesis
          using slots' [of c i] by (simp add: op1 pool1 r1 r2 ns)
      next
        case False
        then show ?thesis
          using slots' [of c i] by (auto simp: op1 slots1 r1 ns)
      qed
    qed
    with whole op' calls' pool' show ?thesis
      by (simp add: spec op1 calls1 pool1 r1 r2 ns)
  qed
qed


lemma funpow_ptr_incr_Flattened:
  "(ptr_incr X ^^ k) (FlattenedBuffer content i) = FlattenedBuffer content (i + k)"
  by (induction k) simp_all


lemma spec_intern_rows_Cons:
  "spec_intern_rows X decoded (h # hs) pool =
     (fst (spec_intern_row X decoded h pool) #
        fst (spec_intern_rows X decoded hs (snd (spec_intern_row X decoded h pool))),
      snd (spec_intern_rows X decoded hs (snd (spec_intern_row X decoded h pool))))"
  by (simp add: split_beta)

lemma length_spec_intern_rows [simp]:
  "length (fst (spec_intern_rows X decoded hs pool)) = length hs"
  by (induction hs arbitrary: pool) (simp_all add: spec_intern_rows_Cons del: spec_intern_rows.simps(2))


lemma set_data_sequence_dynamic:
  assumes "\<not> is_fixed_string_type X dt"
  shows "set_data_sequence X dt c_style tensor agg col n row slice_num regular_slice_size =
     (let fp = (if \<not> c_style
                then flatten_tensor X (sizeof_PyObject_ptr X) n tensor slice_num regular_slice_size
                else (None, ExternalMemory (nt_data tensor + int row * int (sizeof_PyObject_ptr X))));
          rst = string_rows X (is_utf_type X (slice_value_type X dt)) col n 0 (snd fp)
                  \<lparr>out_ptr = 0, gil_lock = False,
                   aggregator = call (column_allocate_data col (size_t_mult n (sizeof_offset_t X))) agg\<rparr>
      in \<lparr>returned = fst rst, agg_after = aggregator (snd rst), flattened_buffer = fst fp,
          scoped_gil_lock = gil_lock (snd rst)\<rparr>)"
  using assms by (simp add: set_data_sequence_def Let_def split_beta)


subsection \<open>The string sizing loop\<close>

text \<open>
  The counter \<open>row\<close> of \<open>get_max_string_size\<close> is a 32 bit unsigned and the row count
  is a \<open>size_t\<close>. Below \<open>2 ^ 32\<close> rows the counter does not wrap: the loop ends, and
  what it returns is the maximum of the accumulator and of the lengths of the pool
  content of the rows that hold no reserved offset (an upper bound that is attained).
  From \<open>2 ^ 32\<close> rows on the counter wraps to \<open>0\<close> before it reaches the row count, and
  the loop can only be left through an error of the pool.
\<close>

lemma unat_plus_one_32:
  fixes row :: "32 word"
  assumes "unat row < n" "n < 2 ^ 32"
  shows "unat (row + 1) = Suc (unat row)"
proof -
  from assms have "unat row + unat (1 :: 32 word) < 2 ^ LENGTH(32)" by simp
  then have "unat (row + 1) = unat row + unat (1 :: 32 word)" by (simp only: unat_add_lem)
  then show ?thesis by simp
qed

lemma max_string_rows_bounded:
  assumes "num_rows < 2 ^ 32"
    and "\<forall>i < num_rows.
           get_offset_string_at X (offset + i) src = nan_placeholder X \<or>
           get_offset_string_at X (offset + i) src = not_a_string X \<or>
           (\<exists>str. get_string_from_pool X (get_offset_string_at X (offset + i) src) pool = Inr str)"
  shows "\<exists>m. max_string_rows X pool src offset num_rows row a = Some (Inr m) \<and> a \<le> m \<and>
           (\<forall>i str. unat row \<le> i \<and> i < num_rows \<and>
                get_offset_string_at X (offset + i) src \<noteq> nan_placeholder X \<and>
                get_offset_string_at X (offset + i) src \<noteq> not_a_string X \<and>
                get_string_from_pool X (get_offset_string_at X (offset + i) src) pool = Inr str \<longrightarrow>
                length str \<le> m) \<and>
           (m = a \<or>
            (\<exists>i str. unat row \<le> i \<and> i < num_rows \<and>
                get_offset_string_at X (offset + i) src \<noteq> nan_placeholder X \<and>
                get_offset_string_at X (offset + i) src \<noteq> not_a_string X \<and>
                get_string_from_pool X (get_offset_string_at X (offset + i) src) pool = Inr str \<and>
                m = length str))"
proof (induction "num_rows - unat row" arbitrary: row a)
  case 0
  then have "\<not> unat row < num_rows" by simp
  then show ?case
    by (subst max_string_rows.simps) auto
next
  case (Suc k)
  then have lt: "unat row < num_rows" by simp
  have next_row: "unat (row + 1) = Suc (unat row)"
    using lt assms(1) by (rule unat_plus_one_32)
  with Suc.hyps(2) have k: "k = num_rows - unat (row + 1)" by simp
  let ?o = "get_offset_string_at X (offset + unat row) src"
  show ?case
  proof (cases "?o = nan_placeholder X \<or> ?o = not_a_string X")
    case True
    then have unfold: "max_string_rows X pool src offset num_rows row a =
        max_string_rows X pool src offset num_rows (row + 1) a"
      using lt by (subst max_string_rows.simps) (simp add: Let_def)
    from Suc.hyps(1) [OF k, of a] obtain m where
      m: "max_string_rows X pool src offset num_rows (row + 1) a = Some (Inr m)" "a \<le> m"
      and ub: "\<forall>i str. unat (row + 1) \<le> i \<and> i < num_rows \<and>
                get_offset_string_at X (offset + i) src \<noteq> nan_placeholder X \<and>
                get_offset_string_at X (offset + i) src \<noteq> not_a_string X \<and>
                get_string_from_pool X (get_offset_string_at X (offset + i) src) pool = Inr str \<longrightarrow>
                length str \<le> m"
      and att: "m = a \<or>
            (\<exists>i str. unat (row + 1) \<le> i \<and> i < num_rows \<and>
                get_offset_string_at X (offset + i) src \<noteq> nan_placeholder X \<and>
                get_offset_string_at X (offset + i) src \<noteq> not_a_string X \<and>
                get_string_from_pool X (get_offset_string_at X (offset + i) src) pool = Inr str \<and>
                m = length str)"
      by blast
    have ub': "\<forall>i str. unat row \<le> i \<and> i < num_rows \<and>
                get_offset_string_at X (offset + i) src \<noteq> nan_placeholder X \<and>
                get_offset_string_at X (offset + i) src \<noteq> not_a_string X \<and>
                get_string_from_pool X (get_offset_string_at X (offset + i) src) pool = Inr str \<longrightarrow>
                length str \<le> m"
    proof (intro allI impI)
      fix i str
      assume i: "unat row \<le> i \<and> i < num_rows \<and>
                get_offset_string_at X (offset + i) src \<noteq> nan_placeholder X \<and>
                get_offset_string_at X (offset + i) src \<noteq> not_a_string X \<and>
                get_string_from_pool X (get_offset_string_at X (offset + i) src) pool = Inr str"
      with True have "i \<noteq> unat row" by auto
      with i have "unat (row + 1) \<le> i" by (simp add: next_row)
      with i ub show "length str \<le> m" by blast
    qed
    have att': "m = a \<or>
            (\<exists>i str. unat row \<le> i \<and> i < num_rows \<and>
                get_offset_string_at X (offset + i) src \<noteq> nan_placeholder X \<and>
                get_offset_string_at X (offset + i) src \<noteq> not_a_string X \<and>
                get_string_from_pool X (get_offset_string_at X (offset + i) src) pool = Inr str \<and>
                m = length str)"
    proof (cases "m = a")
      case True
      then show ?thesis by simp
    next
      case False
      with att obtain i str where "unat (row + 1) \<le> i \<and> i < num_rows \<and>
                get_offset_string_at X (offset + i) src \<noteq> nan_placeholder X \<and>
                get_offset_string_at X (offset + i) src \<noteq> not_a_string X \<and>
                get_string_from_pool X (get_offset_string_at X (offset + i) src) pool = Inr str \<and>
                m = length str"
        by blast
      then have "unat row \<le> i \<and> i < num_rows \<and>
                get_offset_string_at X (offset + i) src \<noteq> nan_placeholder X \<and>
                get_offset_string_at X (offset + i) src \<noteq> not_a_string X \<and>
                get_string_from_pool X (get_offset_string_at X (offset + i) src) pool = Inr str \<and>
                m = length str"
        by (simp add: next_row)
      then show ?thesis by blast
    qed
    from unfold m ub' att' show ?thesis by simp
  next
    case False
    with assms(2) lt obtain s where s: "get_string_from_pool X ?o pool = Inr s" by blast
    let ?a = "max a (length s)"
    from False s have unfold: "max_string_rows X pool src offset num_rows row a =
        max_string_rows X pool src offset num_rows (row + 1) ?a"
      using lt by (subst max_string_rows.simps) (simp add: Let_def)
    from Suc.hyps(1) [OF k, of ?a] obtain m where
      m: "max_string_rows X pool src offset num_rows (row + 1) ?a = Some (Inr m)" "?a \<le> m"
      and ub: "\<forall>i str. unat (row + 1) \<le> i \<and> i < num_rows \<and>
                get_offset_string_at X (offset + i) src \<noteq> nan_placeholder X \<and>
                get_offset_string_at X (offset + i) src \<noteq> not_a_string X \<and>
                get_string_from_pool X (get_offset_string_at X (offset + i) src) pool = Inr str \<longrightarrow>
                length str \<le> m"
      and att: "m = ?a \<or>
            (\<exists>i str. unat (row + 1) \<le> i \<and> i < num_rows \<and>
                get_offset_string_at X (offset + i) src \<noteq> nan_placeholder X \<and>
                get_offset_string_at X (offset + i) src \<noteq> not_a_string X \<and>
                get_string_from_pool X (get_offset_string_at X (offset + i) src) pool = Inr str \<and>
                m = length str)"
      by blast
    have ub': "\<forall>i str. unat row \<le> i \<and> i < num_rows \<and>
                get_offset_string_at X (offset + i) src \<noteq> nan_placeholder X \<and>
                get_offset_string_at X (offset + i) src \<noteq> not_a_string X \<and>
                get_string_from_pool X (get_offset_string_at X (offset + i) src) pool = Inr str \<longrightarrow>
                length str \<le> m"
    proof (intro allI impI)
      fix i str
      assume i: "unat row \<le> i \<and> i < num_rows \<and>
                get_offset_string_at X (offset + i) src \<noteq> nan_placeholder X \<and>
                get_offset_string_at X (offset + i) src \<noteq> not_a_string X \<and>
                get_string_from_pool X (get_offset_string_at X (offset + i) src) pool = Inr str"
      show "length str \<le> m"
      proof (cases "i = unat row")
        case True
        with i s have "str = s" by simp
        with m(2) show ?thesis by simp
      next
        case False
        with i have "unat (row + 1) \<le> i" by (simp add: next_row)
        with i ub show ?thesis by blast
      qed
    qed
    have att': "m = a \<or>
            (\<exists>i str. unat row \<le> i \<and> i < num_rows \<and>
                get_offset_string_at X (offset + i) src \<noteq> nan_placeholder X \<and>
                get_offset_string_at X (offset + i) src \<noteq> not_a_string X \<and>
                get_string_from_pool X (get_offset_string_at X (offset + i) src) pool = Inr str \<and>
                m = length str)"
    proof (cases "m = ?a")
      case True
      show ?thesis
      proof (cases "length s \<le> a")
        case True
        with \<open>m = ?a\<close> show ?thesis by simp
      next
        case nle: False
        with \<open>m = ?a\<close> have "m = length s" by simp
        with False s lt show ?thesis by blast
      qed
    next
      case False
      with att obtain i str where "unat (row + 1) \<le> i \<and> i < num_rows \<and>
                get_offset_string_at X (offset + i) src \<noteq> nan_placeholder X \<and>
                get_offset_string_at X (offset + i) src \<noteq> not_a_string X \<and>
                get_string_from_pool X (get_offset_string_at X (offset + i) src) pool = Inr str \<and>
                m = length str"
        by blast
      then have "unat row \<le> i \<and> i < num_rows \<and>
                get_offset_string_at X (offset + i) src \<noteq> nan_placeholder X \<and>
                get_offset_string_at X (offset + i) src \<noteq> not_a_string X \<and>
                get_string_from_pool X (get_offset_string_at X (offset + i) src) pool = Inr str \<and>
                m = length str"
        by (simp add: next_row)
      then show ?thesis by blast
    qed
    from unfold m ub' att' show ?thesis by simp
  qed
qed

lemma max_string_rows_wraps:
  assumes "max_string_rows X pool src offset num_rows row a = Some y"
  shows "\<not> (2 ^ 32 \<le> num_rows \<and>
            (\<forall>i. get_offset_string_at X (offset + i) src = nan_placeholder X \<or>
                 get_offset_string_at X (offset + i) src = not_a_string X \<or>
                 (\<exists>str. get_string_from_pool X (get_offset_string_at X (offset + i) src) pool =
                          Inr str)))"
proof (rule max_string_rows.raw_induct
    [where P = "\<lambda>X pool src offset num_rows row a y.
       \<not> (2 ^ 32 \<le> num_rows \<and>
            (\<forall>i. get_offset_string_at X (offset + i) src = nan_placeholder X \<or>
                 get_offset_string_at X (offset + i) src = not_a_string X \<or>
                 (\<exists>str. get_string_from_pool X (get_offset_string_at X (offset + i) src) pool =
                          Inr str)))",
     OF _ assms])
  fix f :: "('a, 'b, 'c, 'd, 'e, 'f, 'g) externals \<Rightarrow> 'e \<Rightarrow> 'g \<Rightarrow> nat \<Rightarrow> nat \<Rightarrow> 32 word \<Rightarrow> nat
              \<Rightarrow> (error + nat) option"
    and X :: "('a, 'b, 'c, 'd, 'e, 'f, 'g) externals" and pool src offset num_rows
    and row :: "32 word" and a y
  assume IH: "\<And>X pool src offset num_rows row a y.
      f X pool src offset num_rows row a = Some y \<Longrightarrow>
      \<not> (2 ^ 32 \<le> num_rows \<and>
            (\<forall>i. get_offset_string_at X (offset + i) src = nan_placeholder X \<or>
                 get_offset_string_at X (offset + i) src = not_a_string X \<or>
                 (\<exists>str. get_string_from_pool X (get_offset_string_at X (offset + i) src) pool =
                          Inr str)))"
    and body: "(if unat row < num_rows then
        (let offset_val = get_offset_string_at X (offset + unat row) src in
         if offset_val = nan_placeholder X \<or> offset_val = not_a_string X
         then f X pool src offset num_rows (row + 1) a
         else
           (case get_string_from_pool X offset_val pool of
              Inl e \<Rightarrow> Some (Inl e)
            | Inr str \<Rightarrow> f X pool src offset num_rows (row + 1) (max a (length str))))
      else Some (Inr a)) = Some y"
  show "\<not> (2 ^ 32 \<le> num_rows \<and>
            (\<forall>i. get_offset_string_at X (offset + i) src = nan_placeholder X \<or>
                 get_offset_string_at X (offset + i) src = not_a_string X \<or>
                 (\<exists>str. get_string_from_pool X (get_offset_string_at X (offset + i) src) pool =
                          Inr str)))"
  proof
    assume big: "2 ^ 32 \<le> num_rows \<and>
            (\<forall>i. get_offset_string_at X (offset + i) src = nan_placeholder X \<or>
                 get_offset_string_at X (offset + i) src = not_a_string X \<or>
                 (\<exists>str. get_string_from_pool X (get_offset_string_at X (offset + i) src) pool =
                          Inr str))"
    have "unat row < 2 ^ 32" using unsigned_less [of row] by simp
    with big have lt: "unat row < num_rows" by simp
    let ?o = "get_offset_string_at X (offset + unat row) src"
    show False
    proof (cases "?o = nan_placeholder X \<or> ?o = not_a_string X")
      case True
      with body lt have "f X pool src offset num_rows (row + 1) a = Some y"
        by (simp add: Let_def)
      from IH [OF this] big show False by blast
    next
      case False
      with big obtain str where str: "get_string_from_pool X ?o pool = Inr str" by blast
      with False body lt
      have "f X pool src offset num_rows (row + 1) (max a (length str)) = Some y"
        by (simp add: Let_def)
      from IH [OF this] big show False by blast
    qed
  qed
qed

lemma get_max_string_size_bounded:
  assumes "first_context_row X (slice_and_key context_row) first_row_in_frame = Inr offset"
    and "num_rows = row_range_diff X (slice_and_key context_row)"
    and "pool = context_string_pool context_row"
    and "num_rows < 2 ^ 32"
    and "\<forall>i < num_rows.
           get_offset_string_at X (offset + i) src = nan_placeholder X \<or>
           get_offset_string_at X (offset + i) src = not_a_string X \<or>
           (\<exists>str. get_string_from_pool X (get_offset_string_at X (offset + i) src) pool = Inr str)"
  shows "\<exists>m. get_max_string_size X context_row src first_row_in_frame = Some (Inr m) \<and>
           (\<forall>i str. i < num_rows \<and>
                get_offset_string_at X (offset + i) src \<noteq> nan_placeholder X \<and>
                get_offset_string_at X (offset + i) src \<noteq> not_a_string X \<and>
                get_string_from_pool X (get_offset_string_at X (offset + i) src) pool = Inr str \<longrightarrow>
                length str \<le> m) \<and>
           (m = 0 \<or>
            (\<exists>i str. i < num_rows \<and>
                get_offset_string_at X (offset + i) src \<noteq> nan_placeholder X \<and>
                get_offset_string_at X (offset + i) src \<noteq> not_a_string X \<and>
                get_string_from_pool X (get_offset_string_at X (offset + i) src) pool = Inr str \<and>
                m = length str))"
  using max_string_rows_bounded [OF assms(4,5), of 0 0] assms(1,2,3)
  by (simp add: get_max_string_size_def Let_def)

subsection \<open>The lock\<close>

lemma set_string_row_gil:
  assumes "lazy_gil X requires_runtime"
    and "set_string_row X True col s h st = Next st' \<or>
         set_string_row X True col s h st = Leave r st'"
  shows "gil_lock st' =
           (gil_lock st \<or> (h \<noteq> none_ptr X \<and> \<not> is_py_nan X h \<and> requires_runtime h))"
proof (cases "h = none_ptr X \<or> is_py_nan X h")
  case True
  with assms(2) show ?thesis
    by (auto simp: set_string_row_def store_offset_def split: if_splits)
next
  case False
  obtain w lock where d: "py_unicode_to_buffer X h (gil_lock st) = (w, lock)"
    by (cases "py_unicode_to_buffer X h (gil_lock st)")
  with assms(1) have "lock = (gil_lock st \<or> requires_runtime h)"
    by (metis lazy_gil_def snd_conv)
  with False d assms(2) show ?thesis
    by (cases w)
      (auto simp: set_string_row_def decode_handle_def store_offset_def split_beta)
qed

lemma string_rows_gil:
  assumes "lazy_gil X requires_runtime"
  shows "(gil_lock st \<longrightarrow> gil_lock (snd (string_rows X True col n s p st))) \<and>
         (gil_lock (snd (string_rows X True col n s p st)) \<longrightarrow>
            gil_lock st \<or>
            (\<exists>h \<in> set (handles X p (n - s)).
               h \<noteq> none_ptr X \<and> \<not> is_py_nan X h \<and> requires_runtime h))"
  using assms
proof (induction X "True" col n s p st rule: string_rows.induct)
  case (1 X col n s p st)
  note lazy = "1.prems"
  show ?case
  proof (cases "s < n")
    case False
    then show ?thesis by (simp add: string_rows.simps [of X True col n s])
  next
    case True
    then have ns: "n - s = Suc (n - Suc s)" by simp
    show ?thesis
    proof (cases "set_string_row X True col s (deref X p) st")
      case (Leave r st')
      with set_string_row_gil [OF lazy disjI2 [OF Leave]] True show ?thesis
        by (auto simp: string_rows.simps [of X True col n s] ns)
    next
      case (Next st')
      with set_string_row_gil [OF lazy disjI1 [OF Next]] True
        "1.hyps" [OF True Next lazy] show ?thesis
        by (auto simp: string_rows.simps [of X True col n s] ns)
    qed
  qed
qed

subsection \<open>The interned branch of the dispatcher\<close>


lemma aggregator_set_data_dynamic:
  assumes "td_data_type type_desc = nt_data_type tensor"
    and "td_data_type type_desc = tag_data_type (visit_tag X type_desc)"
    and "is_sequence_type X (tag_data_type (visit_tag X type_desc))"
    and "\<not> is_fixed_string_type X (tag_data_type (visit_tag X type_desc))"
  shows "aggregator_set_data X type_desc tensor agg col n row slice_num regular_slice_size
           sparsify_floats =
     (let fp = (if \<not> is_cstyle_array X (sizeof_raw_type (visit_tag X type_desc)) tensor
                then flatten_tensor X (sizeof_PyObject_ptr X) n tensor slice_num regular_slice_size
                else (None, ExternalMemory (nt_data tensor + int row * int (sizeof_PyObject_ptr X))));
          rst = string_rows X
                  (is_utf_type X (slice_value_type X (tag_data_type (visit_tag X type_desc))))
                  col n 0 (snd fp)
                  \<lparr>out_ptr = 0, gil_lock = False,
                   aggregator = call (column_allocate_data col (size_t_mult n (sizeof_offset_t X))) agg\<rparr>
      in \<lparr>returned = fst rst, agg_after = aggregator (snd rst), flattened_buffer = fst fp,
          scoped_gil_lock = gil_lock (snd rst)\<rparr>)"
  using assms by (simp add: aggregator_set_data_def Let_def set_data_sequence_dynamic)

section \<open>The instance\<close>

lemma example_externals_sel [simp]:
  "visit_tag (example_externals mem) =
     (\<lambda>type_desc. \<lparr>tag_data_type = td_data_type type_desc, sizeof_raw_type = 8\<rparr>)"
  "is_sequence_type (example_externals mem) =
     (\<lambda>dt. dt = ASCII_FIXED64 \<or> dt = ASCII_DYNAMIC64 \<or> dt = UTF_DYNAMIC64)"
  "is_fixed_string_type (example_externals mem) = (\<lambda>dt. dt = ASCII_FIXED64)"
  "slice_value_type (example_externals mem) = (\<lambda>dt. dt)"
  "is_utf_type (example_externals mem) = (\<lambda>vt. vt = UTF_DYNAMIC64)"
  "is_numeric_type (example_externals mem) = (\<lambda>dt. dt = FLOAT64 \<or> dt = INT64)"
  "is_bool_type (example_externals mem) = (\<lambda>dt. dt = BOOL8)"
  "is_floating_point_type (example_externals mem) = (\<lambda>dt. dt = FLOAT64)"
  "is_empty_type (example_externals mem) = (\<lambda>dt. dt = EMPTYVAL)"
  "is_cstyle_array (example_externals mem) = (\<lambda>sz tensor. nt_strides0 tensor = int sz)"
  "ptr_cast (example_externals mem) =
     (\<lambda>sz tensor row. nt_data tensor + int row * nt_strides0 tensor)"
  "typed_tensor_data (example_externals mem) =
     (\<lambda>t. nt_data (tt_tensor t) +
           int (tt_slice_num t * tt_regular_slice_size t) * nt_strides0 (tt_tensor t))"
  "flattener_flatten (example_externals mem) =
     (\<lambda>t src i. mem (src + int i * nt_strides0 (tt_tensor t)))"
  "flattener_source_after (example_externals mem) = (\<lambda>t src. mem)"
  "memory (example_externals mem) = mem"
  "sizeof_PyObject_ptr (example_externals mem) = 8"
  "none_ptr (example_externals mem) = PyNone"
  "is_py_nan (example_externals mem) = (\<lambda>h. h = PyNaN)"
  "py_unicode_to_buffer (example_externals mem) = example_unicode_to_buffer"
  "pystring_to_buffer (example_externals mem) = (\<lambda>h b. example_string_to_buffer h)"
  "sizeof_offset_t (example_externals mem) = 8"
  "not_a_string (example_externals mem) = 18446744073709551614"
  "nan_placeholder (example_externals mem) = 18446744073709551613"
  "string_pool_get (example_externals mem) = example_pool_get"
  "get_string_from_pool (example_externals mem) =
     (\<lambda>offset pool. if offset < length pool then Inr (pool ! offset)
                     else Inl (E_CHECK ''offset not in pool''))"
  "get_offset_string_at (example_externals mem) = (\<lambda>i src. src i)"
  "first_context_row (example_externals mem) =
     (\<lambda>sk first_row_in_frame.
        if fst sk \<le> first_row_in_frame \<and> first_row_in_frame < snd sk
        then Inr (first_row_in_frame - fst sk)
        else Inl (E_CHECK ''row outside the slice''))"
  "row_range_diff (example_externals mem) = (\<lambda>sk. snd sk - fst sk)"
  "agg_set_string_at (example_externals mem) = example_set_string_at mem"
  by (simp_all add: example_externals_def)

lemma get_max_string_size_example:
  "get_max_string_size (example_externals mem)
     \<lparr>slice_and_key = (10, 15), context_string_pool = [''a'', ''bb'']\<rparr>
     (\<lambda>row. [0, 18446744073709551614, 1, 18446744073709551613, 0] ! row) 10 = Some (Inr 2)"
  by (simp add: get_max_string_size_def max_string_rows.simps)

section \<open>The claims\<close>

text \<open>
  C10. Before any branch of the dispatch is entered, \<open>aggregator_set_data\<close> raises a
  checked error when the data type of the destination type descriptor differs from the
  data type of the source tensor, or from the data type of the statically resolved
  tag. The aggregator is then exactly as it was before the call: no column slot was
  stored into, the aggregator received no call and the string pool did not grow.
  Neither the flattened buffer nor the lock was touched.
\<close>

theorem aggregator_set_data_type_mismatch:
  assumes "td_data_type type_desc \<noteq> nt_data_type tensor \<or>
           td_data_type type_desc \<noteq> tag_data_type (visit_tag X type_desc)"
  shows "returned (aggregator_set_data X type_desc tensor agg col rows_to_write row slice_num
             regular_slice_size sparsify_floats) =
           Inl (E_CHECK (if td_data_type type_desc \<noteq> nt_data_type tensor
                         then ''Type desc {} != {} tensor type''
                         else ''Type desc {} != {} static type'')) \<and>
         agg_after (aggregator_set_data X type_desc tensor agg col rows_to_write row slice_num
             regular_slice_size sparsify_floats) = agg \<and>
         flattened_buffer (aggregator_set_data X type_desc tensor agg col rows_to_write row
             slice_num regular_slice_size sparsify_floats) = None \<and>
         \<not> scoped_gil_lock (aggregator_set_data X type_desc tensor agg col rows_to_write row
             slice_num regular_slice_size sparsify_floats)"
  using assms by (auto simp: aggregator_set_data_def untouched_def Let_def)

theorem aggregator_set_data_type_mismatch_witness:
  "td_data_type \<lparr>td_data_type = FLOAT64\<rparr> \<noteq> nt_data_type (example_tensor INT64 8) \<and>
   returned (aggregator_set_data (example_externals (rows_at 4096 8 [])) \<lparr>td_data_type = FLOAT64\<rparr>
       (example_tensor INT64 8) example_agg 0 5 0 0 5 False) =
     Inl (E_CHECK ''Type desc {} != {} tensor type'') \<and>
   agg_after (aggregator_set_data (example_externals (rows_at 4096 8 [])) \<lparr>td_data_type = FLOAT64\<rparr>
       (example_tensor INT64 8) example_agg 0 5 0 0 5 False) = example_agg"
  using aggregator_set_data_type_mismatch
    [of "\<lparr>td_data_type = FLOAT64\<rparr>" "example_tensor INT64 8" "example_externals (rows_at 4096 8 [])"
        example_agg 0 5 0 0 5 False]
  by (simp add: example_tensor_def)






text \<open>
  C7. For a fixed-width string tag (the two type checks passed) the call hands each row
  to the aggregator and does nothing else: it returns the empty optional, flattens no
  buffer, does not take the lock, and makes exactly one \<open>set_string_at\<close> call per row, in
  row order, row \<open>s\<close> passing the address of the characters found \<open>row + s\<close> strides
  after the start of the tensor's data and the length \<open>tensor.elsize()\<close>. The dispatcher
  itself neither stores through \<open>out_ptr\<close> nor calls \<open>string_pool.get\<close> on this path:
  the slots and the string pool of the segment after the call are what these
  \<open>set_string_at\<close> calls, one after the other, make of them. Whether the strings are
  interned is therefore the aggregator's decision; the comment of line 117 says that they
  are ("deduplicate the strings").
\<close>

theorem aggregator_set_data_fixed_strings:
  assumes "td_data_type type_desc = nt_data_type tensor"
    and "td_data_type type_desc = tag_data_type (visit_tag X type_desc)"
    and "is_sequence_type X (tag_data_type (visit_tag X type_desc))"
    and "is_fixed_string_type X (tag_data_type (visit_tag X type_desc))"
    and "out = aggregator_set_data X type_desc tensor agg col rows_to_write row slice_num
                 regular_slice_size sparsify_floats"
  shows "returned out = Inr None \<and>
         calls (agg_after out) =
           calls agg @
           map (\<lambda>s. set_string_at col s
                       (nt_data tensor + (int row + int s) * nt_strides0 tensor) (nt_elsize tensor))
             [0..<rows_to_write] \<and>
         (column_slots (agg_after out), string_pool (agg_after out)) =
           foldl (\<lambda>segment s.
                    agg_set_string_at X col s
                      (nt_data tensor + (int row + int s) * nt_strides0 tensor) (nt_elsize tensor)
                      segment)
             (column_slots agg, string_pool agg) [0..<rows_to_write] \<and>
         flattened_buffer out = None \<and> \<not> scoped_gil_lock out"
proof -
  from assms have out: "out = (untouched agg)
      \<lparr>agg_after := fixed_string_rows X col (nt_elsize tensor) (nt_strides0 tensor) rows_to_write 0
         (nt_data tensor + int row * nt_strides0 tensor) agg\<rparr>"
    by (simp add: aggregator_set_data_def set_data_sequence_def Let_def)
  show ?thesis
    unfolding out
    using fixed_string_rows_calls [of X col "nt_elsize tensor" "nt_strides0 tensor" rows_to_write 0
        "nt_data tensor + int row * nt_strides0 tensor" agg]
      fixed_string_rows_segment [of X col "nt_elsize tensor" "nt_strides0 tensor" rows_to_write 0
        "nt_data tensor + int row * nt_strides0 tensor" agg]
    by (simp add: untouched_def distrib_right add.assoc)
qed

theorem aggregator_set_data_fixed_strings_witness:
  "calls (agg_after (aggregator_set_data (example_externals (rows_at 4096 16 example_fixed_rows))
            \<lparr>td_data_type = ASCII_FIXED64\<rparr> (example_tensor ASCII_FIXED64 16) example_agg
            2 3 0 0 3 False)) =
     [set_string_at 2 0 4096 8, set_string_at 2 1 4112 8, set_string_at 2 2 4128 8] \<and>
   string_pool (agg_after (aggregator_set_data
            (example_externals (rows_at 4096 16 example_fixed_rows))
            \<lparr>td_data_type = ASCII_FIXED64\<rparr> (example_tensor ASCII_FIXED64 16) example_agg
            2 3 0 0 3 False)) = [''ab'', ''cd''] \<and>
   map (column_slots (agg_after (aggregator_set_data
            (example_externals (rows_at 4096 16 example_fixed_rows))
            \<lparr>td_data_type = ASCII_FIXED64\<rparr> (example_tensor ASCII_FIXED64 16) example_agg
            2 3 0 0 3 False)) 2) [0, 1, 2] = [Some 0, Some 1, Some 0]"
proof -
  define X where "X = example_externals (rows_at 4096 16 example_fixed_rows)"
  define tensor where "tensor = example_tensor ASCII_FIXED64 16"
  define out where "out = aggregator_set_data X \<lparr>td_data_type = ASCII_FIXED64\<rparr> tensor
     example_agg 2 3 0 0 3 False"
  have tensor: "nt_data_type tensor = ASCII_FIXED64" "nt_data tensor = 4096"
    "nt_strides0 tensor = 16" "nt_elsize tensor = 8"
    by (simp_all add: tensor_def example_tensor_def)
  have p: "td_data_type \<lparr>td_data_type = ASCII_FIXED64\<rparr> = nt_data_type tensor"
    "td_data_type \<lparr>td_data_type = ASCII_FIXED64\<rparr> =
       tag_data_type (visit_tag X \<lparr>td_data_type = ASCII_FIXED64\<rparr>)"
    "is_sequence_type X (tag_data_type (visit_tag X \<lparr>td_data_type = ASCII_FIXED64\<rparr>))"
    "is_fixed_string_type X (tag_data_type (visit_tag X \<lparr>td_data_type = ASCII_FIXED64\<rparr>))"
    by (simp_all add: X_def tensor)
  note i = aggregator_set_data_fixed_strings [OF p out_def]
  have c: "calls (agg_after out) =
     [set_string_at 2 0 4096 8, set_string_at 2 1 4112 8, set_string_at 2 2 4128 8]"
    using i [THEN conjunct2, THEN conjunct1]
    by (simp add: tensor example_agg_def upt_rec)
  have seg: "(column_slots (agg_after out), string_pool (agg_after out)) =
      foldl (\<lambda>segment s. agg_set_string_at X 2 s (4096 + int s * 16) 8 segment)
        (column_slots example_agg, string_pool example_agg) [0, 1, 2]"
    using i [THEN conjunct2, THEN conjunct2, THEN conjunct1]
    by (simp add: tensor upt_rec numeral_2_eq_2)
  have "string_pool (agg_after out) = [''ab'', ''cd''] \<and>
      map (column_slots (agg_after out) 2) [0, 1, 2] = [Some 0, Some 1, Some 0]"
    using seg
    by (simp add: X_def example_agg_def example_set_string_at_def example_pool_get_def
        example_fixed_rows_def rows_at_def)
  with c show ?thesis
    by (simp add: out_def X_def tensor_def)
qed

text \<open>
  With an aggregator whose \<open>set_string_at\<close> deduplicates, as the comment of line 117
  says, the string pool after a fixed-width write is not the pool before it.
\<close>

theorem aggregator_set_data_fixed_strings_counterexample:
  "string_pool (agg_after (aggregator_set_data
       (example_externals (rows_at 4096 16 example_fixed_rows))
       \<lparr>td_data_type = ASCII_FIXED64\<rparr> (example_tensor ASCII_FIXED64 16) example_agg
       2 3 0 0 3 False)) \<noteq> string_pool example_agg"
  by (simp add: aggregator_set_data_def set_data_sequence_def untouched_def example_tensor_def
      example_agg_def fixed_string_rows.simps call_set_string_at_def example_set_string_at_def
      example_pool_get_def example_fixed_rows_def rows_at_def)

text \<open>
  C3. For a tag that is numeric or boolean (and not a sequence tag) and a call with
  \<open>sparsify_floats\<close> set: when the tag is not a floating-point tag the call always
  raises and leaves the aggregator as it found it, and the exception is the runtime
  error of line 176 as soon as the two type checks of lines 109 to 111 pass (when one of
  them fails, the failed check is the exception raised, see C10); when the tag is a
  floating-point tag and the type checks pass, the call makes the single call
  \<open>set_sparse_block(col, ptr, rows_to_write)\<close> and returns the empty optional.
\<close>

theorem aggregator_set_data_sparsify:
  assumes "\<not> is_sequence_type X dt"
    and "is_numeric_type X dt \<or> is_bool_type X dt"
    and "dt = tag_data_type (visit_tag X type_desc)"
    and "sparsify_floats"
    and "out = aggregator_set_data X type_desc tensor agg col rows_to_write row slice_num
                 regular_slice_size sparsify_floats"
  shows "(\<not> is_floating_point_type X dt \<longrightarrow>
            (\<exists>e. returned out = Inl e) \<and> agg_after out = agg \<and> flattened_buffer out = None \<and>
            (td_data_type type_desc = nt_data_type tensor \<and> td_data_type type_desc = dt \<longrightarrow>
               returned out =
                 Inl (E_RUNTIME ''sparse currently supported for floating point columns only.''))) \<and>
         (is_floating_point_type X dt \<and>
          td_data_type type_desc = nt_data_type tensor \<and> td_data_type type_desc = dt \<longrightarrow>
            returned out = Inr None \<and>
            calls (agg_after out) =
              calls agg @
              [set_sparse_block col
                 (ptr_cast X (sizeof_raw_type (visit_tag X type_desc)) tensor row) rows_to_write] \<and>
            column_slots (agg_after out) = column_slots agg \<and>
            string_pool (agg_after out) = string_pool agg)"
  using assms
  by (auto simp: aggregator_set_data_def set_data_numeric_def untouched_def call_def Let_def)

theorem aggregator_set_data_sparsify_witness:
  "returned (aggregator_set_data (example_externals (rows_at 4096 8 []))
       \<lparr>td_data_type = INT64\<rparr> (example_tensor INT64 8) example_agg 0 5 3 0 5 True) =
     Inl (E_RUNTIME ''sparse currently supported for floating point columns only.'') \<and>
   agg_after (aggregator_set_data (example_externals (rows_at 4096 8 []))
       \<lparr>td_data_type = INT64\<rparr> (example_tensor INT64 8) example_agg 0 5 3 0 5 True) = example_agg \<and>
   returned (aggregator_set_data (example_externals (rows_at 4096 8 []))
       \<lparr>td_data_type = FLOAT64\<rparr> (example_tensor FLOAT64 8) example_agg 0 5 3 0 5 True) =
     Inr None \<and>
   calls (agg_after (aggregator_set_data (example_externals (rows_at 4096 8 []))
       \<lparr>td_data_type = FLOAT64\<rparr> (example_tensor FLOAT64 8) example_agg 0 5 3 0 5 True)) =
     [set_sparse_block 0 4120 5]"
  using aggregator_set_data_sparsify
      [of "example_externals (rows_at 4096 8 [])" INT64 "\<lparr>td_data_type = INT64\<rparr>" True _
          "example_tensor INT64 8" example_agg 0 5 3 0 5, OF _ _ _ _ refl]
    aggregator_set_data_sparsify
      [of "example_externals (rows_at 4096 8 [])" FLOAT64 "\<lparr>td_data_type = FLOAT64\<rparr>" True _
          "example_tensor FLOAT64 8" example_agg 0 5 3 0 5, OF _ _ _ _ refl]
  by (simp add: example_tensor_def example_agg_def)

text \<open>
  C8. The dispatch covers the tags: a call returns normally only for a tag that is a
  sequence tag, a numeric tag, a boolean tag or the empty tag. With the type checks
  passed, a sequence tag takes the text branch and, failing that, a numeric or boolean
  tag takes the numeric branch; of the remaining tags the empty tag does nothing (the
  aggregator, the flattened buffer and the lock are untouched and the empty optional is
  returned) and every other tag ends in the assertion of line 194, with nothing written.
\<close>

theorem aggregator_set_data_exhaustive:
  assumes "dt = tag_data_type (visit_tag X type_desc)"
    and "c_style = is_cstyle_array X (sizeof_raw_type (visit_tag X type_desc)) tensor"
    and "out = aggregator_set_data X type_desc tensor agg col rows_to_write row slice_num
                 regular_slice_size sparsify_floats"
  shows "((\<exists>r. returned out = Inr r) \<longrightarrow>
            is_sequence_type X dt \<or> is_numeric_type X dt \<or> is_bool_type X dt \<or> is_empty_type X dt) \<and>
         (td_data_type type_desc = nt_data_type tensor \<and> td_data_type type_desc = dt \<longrightarrow>
            out =
              (if is_sequence_type X dt
               then set_data_sequence X dt c_style tensor agg col rows_to_write row slice_num
                      regular_slice_size
               else if is_numeric_type X dt \<or> is_bool_type X dt
               then set_data_numeric X dt (sizeof_raw_type (visit_tag X type_desc)) c_style tensor
                      agg col rows_to_write row slice_num regular_slice_size sparsify_floats
               else if is_empty_type X dt then untouched agg
               else (untouched agg)\<lparr>returned := Inl (E_STATIC_ASSERT ''Unknown data type'')\<rparr>))"
  using assms
  by (auto simp: aggregator_set_data_def untouched_def Let_def)

theorem aggregator_set_data_exhaustive_witness:
  "aggregator_set_data (example_externals (rows_at 4096 8 []))
       \<lparr>td_data_type = EMPTYVAL\<rparr> (example_tensor EMPTYVAL 8) example_agg 0 5 0 0 5 False =
     \<lparr>returned = Inr None, agg_after = example_agg, flattened_buffer = None,
      scoped_gil_lock = False\<rparr> \<and>
   aggregator_set_data (example_externals (rows_at 4096 8 []))
       \<lparr>td_data_type = UNKNOWN\<rparr> (example_tensor UNKNOWN 8) example_agg 0 5 0 0 5 False =
     \<lparr>returned = Inl (E_STATIC_ASSERT ''Unknown data type''), agg_after = example_agg,
      flattened_buffer = None, scoped_gil_lock = False\<rparr>"
  using aggregator_set_data_exhaustive
      [of EMPTYVAL "example_externals (rows_at 4096 8 [])" "\<lparr>td_data_type = EMPTYVAL\<rparr>" _
          "example_tensor EMPTYVAL 8" _ example_agg 0 5 0 0 5 False, OF _ refl refl]
    aggregator_set_data_exhaustive
      [of UNKNOWN "example_externals (rows_at 4096 8 [])" "\<lparr>td_data_type = UNKNOWN\<rparr>" _
          "example_tensor UNKNOWN 8" _ example_agg 0 5 0 0 5 False, OF _ refl refl]
  by (simp add: example_tensor_def untouched_def)

text \<open>
  C4. For a numeric or boolean tag (not a sequence tag, the type checks passed) and
  \<open>sparsify_floats\<close> false, the call returns the empty optional, never assigns
  \<open>flattened_buffer\<close> (no flattened buffer is allocated by the dispatcher on either
  path) and makes exactly one call on the aggregator. When the tensor is C-style for the
  raw type, that call is \<open>set_external_block(col, ptr, rows_to_write)\<close> with
  \<open>ptr = tensor.ptr_cast<RawType>(row)\<close>: the column borrows the caller's memory, so
  what is read back from it is whatever that memory holds at the time of reading.
  Otherwise the call is \<open>set_array(col, t)\<close> with the typed tensor \<open>t\<close> of line 189: the
  column owns \<open>rows_to_write\<close> values, value \<open>i\<close> being the element found \<open>i\<close> strides
  after \<open>t.data()\<close> when the call was made, and what is read back from it does not depend
  on the caller's memory any more. The ownership of the two calls is the behaviour the
  specification gives to the aggregator (\<open>spec_attach\<close>, \<open>column_values\<close>).
\<close>

theorem aggregator_set_data_numeric_block:
  assumes "td_data_type type_desc = nt_data_type tensor"
    and "td_data_type type_desc = dt"
    and "dt = tag_data_type (visit_tag X type_desc)"
    and "\<not> is_sequence_type X dt"
    and "is_numeric_type X dt \<or> is_bool_type X dt"
    and "\<not> sparsify_floats"
    and "sz = sizeof_raw_type (visit_tag X type_desc)"
    and "p = ptr_cast X sz tensor row"
    and "t = TypedTensor tensor slice_num regular_slice_size rows_to_write"
    and "out = aggregator_set_data X type_desc tensor agg col rows_to_write row slice_num
                 regular_slice_size sparsify_floats"
  shows "returned out = Inr None \<and> flattened_buffer out = None \<and>
         column_slots (agg_after out) = column_slots agg \<and>
         string_pool (agg_after out) = string_pool agg \<and>
         (is_cstyle_array X sz tensor \<longrightarrow>
            calls (agg_after out) = calls agg @ [set_external_block col p rows_to_write] \<and>
            spec_attach X (set_external_block col p rows_to_write) = Some (Borrowed p rows_to_write) \<and>
            (\<forall>mem. column_values mem sz (Borrowed p rows_to_write) =
                     map (\<lambda>i. mem (p + int i * int sz)) [0..<rows_to_write])) \<and>
         (\<not> is_cstyle_array X sz tensor \<longrightarrow>
            calls (agg_after out) = calls agg @ [set_array col t] \<and>
            (\<exists>xs. spec_attach X (set_array col t) = Some (Owned xs) \<and>
                  length xs = rows_to_write \<and>
                  (\<forall>i < rows_to_write.
                     xs ! i = memory X (typed_tensor_data X t + int i * nt_strides0 tensor)) \<and>
                  (\<forall>mem. column_values mem sz (Owned xs) = xs)))"
  using assms
  by (auto simp: aggregator_set_data_def set_data_numeric_def untouched_def call_def Let_def
      spec_flatten_def TypedTensor_def)

theorem aggregator_set_data_numeric_block_witness:
  "calls (agg_after (aggregator_set_data (example_externals (rows_at 4096 8 example_rows))
       \<lparr>td_data_type = FLOAT64\<rparr> (example_tensor FLOAT64 8) example_agg 0 5 0 0 5 False)) =
     [set_external_block 0 4096 5] \<and>
   calls (agg_after (aggregator_set_data (example_externals (rows_at 4096 8 example_rows))
       \<lparr>td_data_type = FLOAT64\<rparr> (example_tensor FLOAT64 16) example_agg 0 3 0 0 3 False)) =
     [set_array 0 (TypedTensor (example_tensor FLOAT64 16) 0 3 3)] \<and>
   spec_attach (example_externals (rows_at 4096 8 example_rows))
       (set_array 0 (TypedTensor (example_tensor FLOAT64 16) 0 3 3)) =
     Some (Owned [PyPlain ''a'', PyPlain ''bb'', PyPlain ''a''])"
proof -
  define X where "X = example_externals (rows_at 4096 8 example_rows)"
  define direct where "direct = aggregator_set_data X \<lparr>td_data_type = FLOAT64\<rparr>
     (example_tensor FLOAT64 8) example_agg 0 5 0 0 5 False"
  define strided where "strided = aggregator_set_data X \<lparr>td_data_type = FLOAT64\<rparr>
     (example_tensor FLOAT64 16) example_agg 0 3 0 0 3 False"
  have t8: "td_data_type \<lparr>td_data_type = FLOAT64\<rparr> = nt_data_type (example_tensor FLOAT64 8)"
    and t16: "td_data_type \<lparr>td_data_type = FLOAT64\<rparr> = nt_data_type (example_tensor FLOAT64 16)"
    and td: "td_data_type \<lparr>td_data_type = FLOAT64\<rparr> = FLOAT64"
    and dt: "FLOAT64 = tag_data_type (visit_tag X \<lparr>td_data_type = FLOAT64\<rparr>)"
    and seq: "\<not> is_sequence_type X FLOAT64"
    and num: "is_numeric_type X FLOAT64 \<or> is_bool_type X FLOAT64"
    and sz: "8 = sizeof_raw_type (visit_tag X \<lparr>td_data_type = FLOAT64\<rparr>)"
    and p8: "4096 = ptr_cast X 8 (example_tensor FLOAT64 8) 0"
    and p16: "4096 = ptr_cast X 8 (example_tensor FLOAT64 16) 0"
    and c8: "is_cstyle_array X 8 (example_tensor FLOAT64 8)"
    and c16: "\<not> is_cstyle_array X 8 (example_tensor FLOAT64 16)"
    by (simp_all add: X_def example_tensor_def)
  have sp: "\<not> False" by simp
  note i8 = aggregator_set_data_numeric_block [OF t8 td dt seq num sp sz p8 refl direct_def]
  note i16 = aggregator_set_data_numeric_block [OF t16 td dt seq num sp sz p16 refl strided_def]
  have 1: "calls (agg_after direct) = calls example_agg @ [set_external_block 0 4096 5]"
    using i8 [THEN conjunct2, THEN conjunct2, THEN conjunct2, THEN conjunct2, THEN conjunct1,
        THEN mp, OF c8, THEN conjunct1] .
  have 2: "calls (agg_after strided) =
      calls example_agg @ [set_array 0 (TypedTensor (example_tensor FLOAT64 16) 0 3 3)]"
    using i16 [THEN conjunct2, THEN conjunct2, THEN conjunct2, THEN conjunct2, THEN conjunct2,
        THEN mp, OF c16, THEN conjunct1] .
  have 3: "spec_attach X (set_array 0 (TypedTensor (example_tensor FLOAT64 16) 0 3 3)) =
     Some (Owned [PyPlain ''a'', PyPlain ''bb'', PyPlain ''a''])"
    by (simp add: X_def example_tensor_def TypedTensor_def spec_flatten_def
      example_rows_def rows_at_def upt_rec)
  from 1 2 3 show ?thesis
    by (simp add: direct_def strided_def X_def example_agg_def)
qed

text \<open>
  C5. With a flattener that behaves as section 4.3 of the specification says, and for
  every \<open>rows_to_write\<close> and raw type whose byte size \<open>rows_to_write * sizeof(RawType)\<close>
  fits a \<open>size_t\<close>, \<open>flatten_tensor\<close> assigns a buffer of exactly that many bytes whose
  element \<open>i\<close>, for each of the \<open>rows_to_write\<close> rows, is the element of the caller's
  memory found \<open>i\<close> strides after the data pointer of the typed view; the pointer it
  returns is the start of that buffer's data and no address of the caller's memory, the
  \<open>rows_to_write\<close> elements read through it are the gathered values in row order, and
  the caller's memory after the call is what it was before.
\<close>

theorem flatten_tensor_gathers:
  assumes "flattener_gathers X"
    and "t = TypedTensor tensor slice_num regular_slice_size rows_to_write"
    and "(buffer_after, p) =
           flatten_tensor X sizeof_RawType rows_to_write tensor slice_num regular_slice_size"
    and "source_after =
           flatten_tensor_source X sizeof_RawType rows_to_write tensor slice_num regular_slice_size"
    and "rows_to_write * sizeof_RawType < 2 ^ 64"
  shows "\<exists>buffer.
           buffer_after = Some buffer \<and>
           bytes buffer = rows_to_write * sizeof_RawType \<and>
           (\<forall>i < rows_to_write.
              cells buffer i = memory X (typed_tensor_data X t + int i * nt_strides0 tensor)) \<and>
           p = FlattenedBuffer (cells buffer) 0 \<and>
           (\<forall>a. p \<noteq> ExternalMemory a) \<and>
           handles X p rows_to_write =
             spec_flatten (memory X) (typed_tensor_data X t) (nt_strides0 tensor) rows_to_write \<and>
           source_after = memory X"
proof -
  have bytes: "size_t_mult rows_to_write sizeof_RawType = rows_to_write * sizeof_RawType"
    using assms(5) by (simp add: size_t_mult_def)
  have source: "source_after = memory X"
    using assms(1) by (simp add: assms(4) flatten_tensor_source_def flattener_gathers_def)
  let ?buffer = "\<lparr>bytes = size_t_mult rows_to_write sizeof_RawType,
                  cells = flattener_flatten X t (typed_tensor_data X t)\<rparr>"
  from assms(3) have fb: "buffer_after = Some ?buffer"
    and p: "p = FlattenedBuffer (cells ?buffer) 0"
    by (simp_all add: flatten_tensor_def Let_def assms(2))
  have c: "\<forall>i < rows_to_write.
              cells ?buffer i = memory X (typed_tensor_data X t + int i * nt_strides0 tensor)"
    using assms(1) by (simp add: flattener_gathers_def assms(2) TypedTensor_def)
  have "handles X p rows_to_write =
          spec_flatten (memory X) (typed_tensor_data X t) (nt_strides0 tensor) rows_to_write"
  proof (rule nth_equalityI)
    show "length (handles X p rows_to_write) =
          length (spec_flatten (memory X) (typed_tensor_data X t) (nt_strides0 tensor) rows_to_write)"
      by (simp add: spec_flatten_def)
  next
    fix i assume "i < length (handles X p rows_to_write)"
    then have "i < rows_to_write" by simp
    with c show "handles X p rows_to_write ! i =
        spec_flatten (memory X) (typed_tensor_data X t) (nt_strides0 tensor) rows_to_write ! i"
      by (simp add: handles_funpow p funpow_ptr_incr_Flattened spec_flatten_def)
  qed
  with fb p c bytes source show ?thesis by simp
qed

theorem flatten_tensor_gathers_witness:
  "flattener_gathers (example_externals (rows_at 4096 8 example_rows)) \<and>
   map_option bytes (fst (flatten_tensor (example_externals (rows_at 4096 8 example_rows)) 8 3
       (example_tensor UTF_DYNAMIC64 16) 0 3)) = Some 24 \<and>
   handles (example_externals (rows_at 4096 8 example_rows))
     (snd (flatten_tensor (example_externals (rows_at 4096 8 example_rows)) 8 3
       (example_tensor UTF_DYNAMIC64 16) 0 3)) 3 =
     [PyPlain ''a'', PyPlain ''bb'', PyPlain ''a''] \<and>
   flatten_tensor_source (example_externals (rows_at 4096 8 example_rows)) 8 3
       (example_tensor UTF_DYNAMIC64 16) 0 3 = rows_at 4096 8 example_rows"
proof -
  define X where "X = example_externals (rows_at 4096 8 example_rows)"
  have g: "flattener_gathers X"
    by (simp add: X_def flattener_gathers_def)
  have small: "(3::nat) * 8 < 2 ^ 64" by simp
  obtain fb p where f: "(fb, p) = flatten_tensor X 8 3 (example_tensor UTF_DYNAMIC64 16) 0 3"
    by (cases "flatten_tensor X 8 3 (example_tensor UTF_DYNAMIC64 16) 0 3") simp
  from flatten_tensor_gathers [OF g refl f refl small] obtain buffer where
    "fb = Some buffer" "bytes buffer = 3 * 8"
    "handles X p 3 =
       spec_flatten (memory X)
         (typed_tensor_data X (TypedTensor (example_tensor UTF_DYNAMIC64 16) 0 3 3))
         (nt_strides0 (example_tensor UTF_DYNAMIC64 16)) 3"
    "flatten_tensor_source X 8 3 (example_tensor UTF_DYNAMIC64 16) 0 3 = memory X"
    by blast
  with g f [symmetric] show ?thesis
    by (simp add: X_def [symmetric])
      (simp add: X_def example_tensor_def TypedTensor_def spec_flatten_def
        example_rows_def rows_at_def upt_rec)
qed

text \<open>
  The product of line 85 is a product of two \<open>size_t\<close>: for \<open>2 ^ 61\<close> rows of eight
  bytes it wraps, and the buffer is presized to no bytes at all.
\<close>

theorem flatten_tensor_gathers_counterexample:
  "map_option bytes (fst (flatten_tensor (example_externals (rows_at 4096 8 example_rows)) 8
       2305843009213693952 (example_tensor UTF_DYNAMIC64 16) 0 0)) = Some 0 \<and>
   (0::nat) \<noteq> 2305843009213693952 * 8"
  by (simp add: flatten_tensor_def size_t_mult_def Let_def)

text \<open>
  C9. For a variable-length UTF text column and a decoder that takes the lock as
  the specification says (\<open>lazy_gil\<close>), let \<open>lock_after k\<close> be the state of
  \<open>scoped_gil_lock\<close> once the loop has gone through the first \<open>k\<close> rows, or has left
  earlier (by \<open>string_rows_split\<close> the run over all rows passes through exactly this
  state). The lock the call ends with is \<open>lock_after rows_to_write\<close>. The lock is not
  held after \<open>k\<close> rows when none of these rows requires runtime-level decoding; it is
  held after row \<open>k\<close> when the loop reaches row \<open>k\<close> and that row requires runtime-level
  decoding; and once held after \<open>k\<close> rows it is held after any larger number of rows:
  it is never released while the column is populated.
\<close>

theorem aggregator_set_data_lazy_lock:
  assumes lazy: "lazy_gil X requires_runtime"
    and types: "td_data_type type_desc = nt_data_type tensor" "td_data_type type_desc = dt"
    and dt: "dt = tag_data_type (visit_tag X type_desc)"
    and branch: "is_sequence_type X dt" "\<not> is_fixed_string_type X dt"
      "is_utf_type X (slice_value_type X dt)"
    and p: "ptr_data =
        snd (if \<not> is_cstyle_array X (sizeof_raw_type (visit_tag X type_desc)) tensor
             then flatten_tensor X (sizeof_PyObject_ptr X) rows_to_write tensor slice_num
                    regular_slice_size
             else (None, ExternalMemory (nt_data tensor + int row * int (sizeof_PyObject_ptr X))))"
    and st0: "st0 = \<lparr>out_ptr = 0, gil_lock = False,
        aggregator = call (column_allocate_data col
                             (size_t_mult rows_to_write (sizeof_offset_t X))) agg\<rparr>"
    and lock_after: "lock_after = (\<lambda>k. gil_lock (snd (string_rows X True col k 0 ptr_data st0)))"
    and out: "out = aggregator_set_data X type_desc tensor agg col rows_to_write row slice_num
                      regular_slice_size sparsify_floats"
  shows "scoped_gil_lock out = lock_after rows_to_write \<and>
         (\<forall>k. (\<forall>h \<in> set (handles X ptr_data k).
                  h = none_ptr X \<or> is_py_nan X h \<or> \<not> requires_runtime h) \<longrightarrow>
              \<not> lock_after k) \<and>
         (\<forall>k. fst (string_rows X True col k 0 ptr_data st0) = Inr None \<and>
              handles X ptr_data (Suc k) ! k \<noteq> none_ptr X \<and>
              \<not> is_py_nan X (handles X ptr_data (Suc k) ! k) \<and>
              requires_runtime (handles X ptr_data (Suc k) ! k) \<longrightarrow>
              lock_after (Suc k)) \<and>
         (\<forall>k n. k \<le> n \<and> lock_after k \<longrightarrow> lock_after n)"
proof -
  have top: "scoped_gil_lock out = lock_after rows_to_write"
    using types branch unfolding out dt p st0 lock_after
    by (simp add: aggregator_set_data_dynamic Let_def)
  have never: "\<not> lock_after k"
    if "\<forall>h \<in> set (handles X ptr_data k). h = none_ptr X \<or> is_py_nan X h \<or> \<not> requires_runtime h"
    for k
    using string_rows_gil [OF lazy, of st0 col k 0 ptr_data] that
    by (auto simp: lock_after st0)
  have mono: "lock_after n" if "k \<le> n" "lock_after k" for k n
  proof -
    obtain r st' where run: "string_rows X True col k 0 ptr_data st0 = (r, st')"
      by (cases "string_rows X True col k 0 ptr_data st0")
    with that(2) have held: "gil_lock st'" by (simp add: lock_after)
    show ?thesis
    proof (cases "r = Inr None")
      case True
      with string_rows_split [of 0 k n X True col ptr_data st0] that(1) run
      have "string_rows X True col n 0 ptr_data st0 =
              string_rows X True col n k ((ptr_incr X ^^ k) ptr_data) st'"
        by simp
      with string_rows_gil [OF lazy, of st' col n k "(ptr_incr X ^^ k) ptr_data"] held
      show ?thesis by (simp add: lock_after)
    next
      case False
      with string_rows_split [of 0 k n X True col ptr_data st0] that(1) run
      have "string_rows X True col n 0 ptr_data st0 = (r, st')"
        by (auto split: sum.splits option.splits)
      with held show ?thesis by (simp add: lock_after)
    qed
  qed
  have acquires: "lock_after (Suc k)"
    if reached: "fst (string_rows X True col k 0 ptr_data st0) = Inr None"
      and h: "handles X ptr_data (Suc k) ! k \<noteq> none_ptr X"
        "\<not> is_py_nan X (handles X ptr_data (Suc k) ! k)"
        "requires_runtime (handles X ptr_data (Suc k) ! k)"
    for k
  proof -
    obtain st' where run: "string_rows X True col k 0 ptr_data st0 = (Inr None, st')"
      using reached by (cases "string_rows X True col k 0 ptr_data st0") simp
    let ?p = "(ptr_incr X ^^ k) ptr_data"
    have at: "deref X ?p = handles X ptr_data (Suc k) ! k"
      using handles_funpow [of k "Suc k" X ptr_data] by (simp del: handles.simps)
    from string_rows_split [of 0 k "Suc k" X True col ptr_data st0] run
    have split: "string_rows X True col (Suc k) 0 ptr_data st0 =
              string_rows X True col (Suc k) k ?p st'"
      by simp
    have "gil_lock (snd (string_rows X True col (Suc k) k ?p st'))"
    proof (cases "set_string_row X True col k (deref X ?p) st'")
      case (Next st'')
      from set_string_row_gil [OF lazy disjI1 [OF Next]] h at have "gil_lock st''" by simp
      with Next show ?thesis
        by (simp add: string_rows.simps [of X True col "Suc k" k]
            string_rows.simps [of X True col "Suc k" "Suc k"])
    next
      case (Leave r st'')
      from set_string_row_gil [OF lazy disjI2 [OF Leave]] h at have "gil_lock st''" by simp
      with Leave show ?thesis
        by (simp add: string_rows.simps [of X True col "Suc k" k])
    qed
    with split show ?thesis by (simp add: lock_after)
  qed
  from top never mono acquires show ?thesis by blast
qed

theorem aggregator_set_data_lazy_lock_witness:
  "lazy_gil (example_externals (rows_at 4096 8 example_runtime_rows)) example_requires_runtime \<and>
   \<not> gil_lock (snd (string_rows (example_externals (rows_at 4096 8 example_runtime_rows)) True 0 2 0
        (ExternalMemory 4096)
        \<lparr>out_ptr = 0, gil_lock = False,
         aggregator = call (column_allocate_data 0 32) example_agg\<rparr>)) \<and>
   gil_lock (snd (string_rows (example_externals (rows_at 4096 8 example_runtime_rows)) True 0 3 0
        (ExternalMemory 4096)
        \<lparr>out_ptr = 0, gil_lock = False,
         aggregator = call (column_allocate_data 0 32) example_agg\<rparr>)) \<and>
   scoped_gil_lock (aggregator_set_data (example_externals (rows_at 4096 8 example_runtime_rows))
        \<lparr>td_data_type = UTF_DYNAMIC64\<rparr> (example_tensor UTF_DYNAMIC64 8) example_agg
        0 4 0 0 4 False)"
proof -
  define X where "X = example_externals (rows_at 4096 8 example_runtime_rows)"
  define st0 where "st0 = \<lparr>out_ptr = 0, gil_lock = False,
         aggregator = call (column_allocate_data 0 (size_t_mult 4 (sizeof_offset_t X)))
                        example_agg\<rparr>"
  define lock_after where
    "lock_after = (\<lambda>k. gil_lock (snd (string_rows X True 0 k 0 (ExternalMemory 4096) st0)))"
  define out where "out = aggregator_set_data X \<lparr>td_data_type = UTF_DYNAMIC64\<rparr>
        (example_tensor UTF_DYNAMIC64 8) example_agg 0 4 0 0 4 False"
  have lazy: "lazy_gil X example_requires_runtime"
    unfolding lazy_gil_def X_def
  proof (intro allI)
    fix h lock
    show "snd (py_unicode_to_buffer (example_externals (rows_at 4096 8 example_runtime_rows)) h lock)
            = (lock \<or> example_requires_runtime h)"
      by (cases h) simp_all
  qed
  have p: "ExternalMemory 4096 =
        snd (if \<not> is_cstyle_array X (sizeof_raw_type (visit_tag X \<lparr>td_data_type = UTF_DYNAMIC64\<rparr>))
                     (example_tensor UTF_DYNAMIC64 8)
             then flatten_tensor X (sizeof_PyObject_ptr X) 4 (example_tensor UTF_DYNAMIC64 8) 0 4
             else (None, ExternalMemory (nt_data (example_tensor UTF_DYNAMIC64 8) +
                                          int 0 * int (sizeof_PyObject_ptr X))))"
    by (simp add: X_def example_tensor_def)
  note inst = aggregator_set_data_lazy_lock
      [where X = X and dt = UTF_DYNAMIC64 and type_desc = "\<lparr>td_data_type = UTF_DYNAMIC64\<rparr>"
        and tensor = "example_tensor UTF_DYNAMIC64 8" and col = "0::nat" and agg = example_agg,
        OF lazy _ _ _ _ _ _ p st0_def lock_after_def out_def]
  have all: "scoped_gil_lock out = lock_after 4 \<and>
         (\<forall>k. (\<forall>h \<in> set (handles X (ExternalMemory 4096) k).
                  h = none_ptr X \<or> is_py_nan X h \<or> \<not> example_requires_runtime h) \<longrightarrow>
              \<not> lock_after k) \<and>
         (\<forall>k. fst (string_rows X True 0 k 0 (ExternalMemory 4096) st0) = Inr None \<and>
              handles X (ExternalMemory 4096) (Suc k) ! k \<noteq> none_ptr X \<and>
              \<not> is_py_nan X (handles X (ExternalMemory 4096) (Suc k) ! k) \<and>
              example_requires_runtime (handles X (ExternalMemory 4096) (Suc k) ! k) \<longrightarrow>
              lock_after (Suc k)) \<and>
         (\<forall>k n. k \<le> n \<and> lock_after k \<longrightarrow> lock_after n)"
    by (rule inst) (simp_all add: X_def example_tensor_def)
  have hs: "handles X (ExternalMemory 4096) 3 = [PyPlain ''a'', PyNone, PyRuntime ''b'']"
    by (simp add: X_def eval_nat_numeral example_runtime_rows_def rows_at_def)
  have hs2: "handles X (ExternalMemory 4096) 2 = [PyPlain ''a'', PyNone]"
    by (simp add: X_def eval_nat_numeral example_runtime_rows_def rows_at_def)
  have l2: "\<not> lock_after 2"
  proof -
    have "\<forall>h \<in> set (handles X (ExternalMemory 4096) 2).
            h = none_ptr X \<or> is_py_nan X h \<or> \<not> example_requires_runtime h"
      unfolding hs2 by (simp add: X_def)
    with all show ?thesis by blast
  qed
  have run2: "fst (string_rows X True 0 2 0 (ExternalMemory 4096) st0) = Inr None"
  proof -
    have "\<forall>h \<in> set (handles X (ExternalMemory 4096) (2 - 0)). plain_row X True example_decoded h"
      unfolding diff_zero hs2 by (simp add: X_def plain_row_def decode_handle_def)
    from string_rows_plain [OF this, of 0 st0] show ?thesis by auto
  qed
  have l3: "lock_after 3"
  proof -
    have "handles X (ExternalMemory 4096) (Suc 2) ! 2 = PyRuntime ''b''"
      using hs by (simp add: eval_nat_numeral)
    then have "handles X (ExternalMemory 4096) (Suc 2) ! 2 \<noteq> none_ptr X \<and>
        \<not> is_py_nan X (handles X (ExternalMemory 4096) (Suc 2) ! 2) \<and>
        example_requires_runtime (handles X (ExternalMemory 4096) (Suc 2) ! 2)"
      by (simp add: X_def)
    with all run2 have "lock_after (Suc 2)" by blast
    then show ?thesis by (simp add: eval_nat_numeral)
  qed
  have l4: "lock_after 4"
  proof -
    have "(3::nat) \<le> 4" by simp
    with all l3 show ?thesis by blast
  qed
  with all have "scoped_gil_lock out" by simp
  with lazy l2 l3 show ?thesis
    by (simp add: out_def lock_after_def st0_def X_def size_t_mult_def)
qed

text \<open>
  C6. \<open>get_max_string_size\<close> scans the rows of the context row's slice range and skips
  the rows whose stored offset is \<open>NOT_A_STRING\<close> or \<open>NAN_PLACEHOLDER\<close>. For a slice of
  fewer than \<open>2 ^ 32\<close> rows it returns the maximum byte length of the pool content of
  the remaining rows (\<open>get_max_string_size_bounded\<close>), and for the rows
  \<open>["a", NOT_A_STRING, "bb", NAN_PLACEHOLDER, "a"]\<close> it returns \<open>2\<close>
  (\<open>get_max_string_size_example\<close>). The loop counter is declared \<open>auto row = 0u\<close>, an
  \<open>unsigned int\<close>, where every other loop of the header counts rows in a \<open>size_t\<close>:
  for a slice of \<open>2 ^ 32\<close> rows, all of them holding the offset of \<open>"a"\<close>, the counter
  wraps to \<open>0\<close> after row \<open>2 ^ 32 - 1\<close> and the call never returns.
\<close>

theorem get_max_string_size_wraps:
  "get_max_string_size (example_externals (rows_at 4096 8 []))
     \<lparr>slice_and_key = (0, 4294967296), context_string_pool = [''a'']\<rparr> (\<lambda>row. 0) 0 = None"
proof (cases "max_string_rows (example_externals (rows_at 4096 8 [])) [''a''] (\<lambda>row. 0) 0
                4294967296 0 0")
  case None
  then show ?thesis by (simp add: get_max_string_size_def)
next
  case (Some y)
  from max_string_rows_wraps [OF Some] show ?thesis by simp
qed

end
